theory Spec2Isabelle
  imports Complex_Main "HOL-Library.Char_ord" "HOL-Library.List_Lexorder"
begin

section \<open>Strings and paths\<close>

text \<open>
  JavaScript strings are modelled as \<^typ>\<open>string\<close>. The names the generator handles are
  ASCII identifiers, for which the order of \<open>Array.prototype.sort()\<close> (code units, a strict
  prefix first) is the lexicographic order on \<^typ>\<open>char list\<close>.
\<close>

text \<open>\<open>Array.prototype.join\<close>.\<close>

fun join :: "string \<Rightarrow> string list \<Rightarrow> string" where
  "join sep [] = []"
| "join sep [x] = x"
| "join sep (x # y # ys) = x @ sep @ join sep (y # ys)"

text \<open>Interpolation of a boolean into a template literal.\<close>

definition boolText :: "bool \<Rightarrow> string" where
  "boolText b = (if b then ''true'' else ''false'')"

text \<open>\<open>[...new Set(xs)]\<close>: the distinct elements of \<open>xs\<close> in the order of their first
  occurrence (a Set iterates in insertion order).\<close>

fun setInsertAll :: "'a list \<Rightarrow> 'a list \<Rightarrow> 'a list" where
  "setInsertAll acc [] = acc"
| "setInsertAll acc (x # xs) = setInsertAll (if x \<in> set acc then acc else acc @ [x]) xs"

definition setValues :: "'a list \<Rightarrow> 'a list" where
  "setValues xs = setInsertAll [] xs"

text \<open>
  \<open>path.posix.join\<close> of Node.js (a library function, not part of the repository): the
  non-empty arguments are joined with a slash and the result is normalised. Normalisation
  drops empty and \<open>.\<close> segments and resolves \<open>..\<close> against the segment before it; a
  relative path keeps the \<open>..\<close> segments that lead above its start.
\<close>

fun splitOn :: "char \<Rightarrow> string \<Rightarrow> string list" where
  "splitOn c [] = [[]]"
| "splitOn c (x # xs) =
     (if x = c then [] # splitOn c xs
      else (case splitOn c xs of [] \<Rightarrow> [[x]] | s # ss \<Rightarrow> (x # s) # ss))"

fun normalizeSegments :: "bool \<Rightarrow> string list \<Rightarrow> string list \<Rightarrow> string list" where
  "normalizeSegments allowAboveRoot res [] = res"
| "normalizeSegments allowAboveRoot res (s # ss) =
     (if s = [] \<or> s = ''.'' then normalizeSegments allowAboveRoot res ss
      else if s = ''..'' then
        (if res \<noteq> [] \<and> last res \<noteq> ''..'' then normalizeSegments allowAboveRoot (butlast res) ss
         else if allowAboveRoot then normalizeSegments allowAboveRoot (res @ [''..'']) ss
         else normalizeSegments allowAboveRoot res ss)
      else normalizeSegments allowAboveRoot (res @ [s]) ss)"

definition normalizeString :: "string \<Rightarrow> bool \<Rightarrow> string" where
  "normalizeString p allowAboveRoot =
     join ''/'' (normalizeSegments allowAboveRoot [] (splitOn CHR ''/'' p))"

definition posixNormalize :: "string \<Rightarrow> string" where
  "posixNormalize p =
     (if p = [] then ''.''
      else
        (let isAbsolute = (hd p = CHR ''/'');
             trailingSeparator = (last p = CHR ''/'');
             q = normalizeString p (\<not> isAbsolute)
         in if q = [] then (if isAbsolute then ''/'' else if trailingSeparator then ''./'' else ''.'')
            else
              (let q = (if trailingSeparator then q @ ''/'' else q)
               in if isAbsolute then ''/'' @ q else q)))"

definition posixJoin :: "string list \<Rightarrow> string" where
  "posixJoin args =
     (let joined = join ''/'' (filter (\<lambda>arg. arg \<noteq> []) args)
      in if joined = [] then ''.'' else posixNormalize joined)"

section \<open>The input types of the document\<close>

text \<open>\<open>DMMF.TypeInfo\<close>, \<open>DMMF.SchemaArg\<close> and \<open>DMMF.InputType\<close>, with the members that
  \<open>generator/type-class.ts\<close> reads. The member \<open>fields\<close> is written \<open>fields'\<close>.\<close>

record typeInfo =
  location :: string
  type :: string

record schemaArg =
  name :: string
  typeName :: string
  fieldTSType :: string
  typeGraphQLType :: string
  isRequired :: bool
  isOmitted :: bool
  hasMappedName :: bool
  selectedInputType :: typeInfo

record inputType =
  typeName :: string
  fields' :: "schemaArg list"

text \<open>The members of \<open>GeneratorOptions\<close> that the input type generator reads. An optional
  member is an \<^typ>\<open>'a option\<close>: \<open>??\<close> takes its right operand exactly when the left one
  is \<open>undefined\<close> (or \<open>null\<close>).\<close>

record generatorOptions =
  customPrismaImportPath :: "string option"
  relativePrismaOutputPath :: string
  absolutePrismaOutputPath :: "string option"
  emitIsAbstract :: bool

section \<open>generateInputTypeText\<close>

text \<open>The line numbers of this section and the next are those of
  \<open>src/generator/type-class.ts\<close>. The function pushes its lines onto one array; the model
  gives the lines of each stretch of the function and puts them together at the end.\<close>

text \<open>Lines 302 to 311: the input types to import.\<close>

definition inputTypeImports :: "inputType \<Rightarrow> string list" where
  "inputTypeImports inputType =
     sort (setValues
       (filter (\<lambda>fieldType. fieldType \<noteq> inputType.typeName inputType)
         (map (\<lambda>field. type (selectedInputType field))
           (filter (\<lambda>field. location (selectedInputType field) = ''inputObjectTypes'')
             (fields' inputType)))))"

text \<open>Lines 317 to 324: the enums to import.\<close>

definition enumImports :: "inputType \<Rightarrow> string list" where
  "enumImports inputType =
     sort (setValues
       (map (\<lambda>fieldType. type fieldType)
         (filter (\<lambda>fieldType. location fieldType = ''enumTypes'')
           (map (\<lambda>field. selectedInputType field) (fields' inputType)))))"

text \<open>Lines 279 to 328: the import declarations, in the order in which they are pushed.\<close>

definition hasBytes :: "inputType \<Rightarrow> bool" where
  "hasBytes inputType =
     list_ex (\<lambda>field. type (selectedInputType field) = ''Bytes'') (fields' inputType)"

definition importLines :: "inputType \<Rightarrow> generatorOptions \<Rightarrow> string list" where
  \<open>importLines inputType options =
     (let lines = [];
          lines = lines @ [''import * as TypeGraphQL from "type-graphql";''];
          lines = lines @ [''import * as GraphQLScalars from "graphql-scalars";''];
          prismaImportPath =
            (case customPrismaImportPath options of
               Some p \<Rightarrow> p
             | None \<Rightarrow> posixJoin [relativePrismaOutputPath options, ''client'']);
          prismaModuleSpecifier =
            (case absolutePrismaOutputPath options of
               Some p \<Rightarrow> p
             | None \<Rightarrow> posixJoin [''..'', ''..'', prismaImportPath]);
          lines = lines @ [''import { Prisma } from "'' @ prismaModuleSpecifier @ ''";''];
          scalarsPath = posixJoin [''..'', ''..'', ''scalars''];
          lines =
            (if hasBytes inputType
             then lines @ [''import { DecimalJSScalar, BytesScalar } from "'' @ scalarsPath @ ''";'']
             else lines @ [''import { DecimalJSScalar } from "'' @ scalarsPath @ ''";'']);
          lines =
            foldl (\<lambda>lines importName.
                lines @ [''import { '' @ importName @ '' } from "''
                           @ posixJoin [''..'', ''inputs'', importName] @ ''";''])
              lines (inputTypeImports inputType);
          lines =
            foldl (\<lambda>lines enumName.
                lines @ [''import { '' @ enumName @ '' } from "''
                           @ posixJoin [''..'', ''..'', ''enums'', enumName] @ ''";''])
              lines (enumImports inputType)
      in lines)\<close>

text \<open>Lines 330 to 338: the blank line, the class decorator and the opening of the class.\<close>

definition classHeaderLines :: "inputType \<Rightarrow> generatorOptions \<Rightarrow> string list" where
  \<open>classHeaderLines inputType options =
     (let decoratorOptions = (if emitIsAbstract options then ''{ isAbstract: true }'' else ''{}'')
      in [[],
          ''@TypeGraphQL.InputType("'' @ inputType.typeName inputType @ ''", ''
            @ decoratorOptions @ '')'',
          ''export class '' @ inputType.typeName inputType @ '' {''])\<close>

text \<open>Lines 347 to 362: what the first loop pushes for one field, before the separating
  blank line.\<close>

definition fieldDecoratorLine :: "schemaArg \<Rightarrow> string" where
  "fieldDecoratorLine field =
     ''    @TypeGraphQL.Field(_type => '' @ typeGraphQLType field @ '', { nullable: ''
       @ boolText (\<not> isRequired field) @ '' })''"

definition propertyLine :: "schemaArg \<Rightarrow> string" where
  "propertyLine field =
     (if isRequired field
      then ''    '' @ schemaArg.name field @ ''!: '' @ fieldTSType field @ '';''
      else ''    '' @ schemaArg.name field @ ''?: '' @ fieldTSType field @ '';'')"

definition fieldDeclarationLines :: "schemaArg \<Rightarrow> string list" where
  "fieldDeclarationLines field =
     (if hasMappedName field then [propertyLine field]
      else [fieldDecoratorLine field, propertyLine field])"

text \<open>Lines 343 to 367: the loop over \<open>fieldsToEmit\<close>.\<close>

function fieldLoop :: "schemaArg list \<Rightarrow> schemaArg list \<Rightarrow> nat \<Rightarrow> string list \<Rightarrow> string list" where
  "fieldLoop fieldsToEmit mappedFields i lines =
     (if i < length fieldsToEmit then
        (let field = fieldsToEmit ! i;
             isLast = (i = length fieldsToEmit - 1 \<and> length mappedFields = 0);
             lines = lines @ fieldDeclarationLines field;
             lines = (if \<not> isLast then lines @ [[]] else lines)
         in fieldLoop fieldsToEmit mappedFields (i + 1) lines)
      else lines)"
  by pat_completeness auto
termination
  by (relation "measure (\<lambda>(fieldsToEmit, mappedFields, i, lines). length fieldsToEmit - i)") auto

text \<open>Lines 373 to 386: the getter and the setter of one field with a mapped name.\<close>

definition accessorLines :: "schemaArg \<Rightarrow> string list" where
  "accessorLines field =
     [fieldDecoratorLine field,
      ''    get '' @ schemaArg.typeName field @ ''() {'',
      ''        return this.'' @ schemaArg.name field @ '';'',
      ''    }'',
      [],
      ''    set '' @ schemaArg.typeName field @ ''('' @ schemaArg.name field @ '': ''
        @ fieldTSType field @ '') {'',
      ''        this.'' @ schemaArg.name field @ '' = '' @ schemaArg.name field @ '';'',
      ''    }'']"

text \<open>Lines 369 to 391: the loop over \<open>mappedFields\<close>.\<close>

function accessorLoop :: "schemaArg list \<Rightarrow> nat \<Rightarrow> string list \<Rightarrow> string list" where
  "accessorLoop mappedFields i lines =
     (if i < length mappedFields then
        (let field = mappedFields ! i;
             isLastMapped = (i = length mappedFields - 1);
             lines = lines @ accessorLines field;
             lines = (if \<not> isLastMapped then lines @ [[]] else lines)
         in accessorLoop mappedFields (i + 1) lines)
      else lines)"
  by pat_completeness auto
termination
  by (relation "measure (\<lambda>(mappedFields, i, lines). length mappedFields - i)") auto

declare fieldLoop.simps [simp del] accessorLoop.simps [simp del]

text \<open>Lines 340 to 391: the members of the class.\<close>

definition fieldsToEmit :: "inputType \<Rightarrow> schemaArg list" where
  "fieldsToEmit inputType = filter (\<lambda>field. \<not> isOmitted field) (fields' inputType)"

definition mappedFields :: "inputType \<Rightarrow> schemaArg list" where
  "mappedFields inputType = filter (\<lambda>field. hasMappedName field) (fieldsToEmit inputType)"

definition classBodyLines :: "inputType \<Rightarrow> string list" where
  "classBodyLines inputType =
     (let lines = [];
          lines = fieldLoop (fieldsToEmit inputType) (mappedFields inputType) 0 lines;
          lines = accessorLoop (mappedFields inputType) 0 lines
      in lines)"

definition generateInputTypeLines :: "inputType \<Rightarrow> generatorOptions \<Rightarrow> string list" where
  "generateInputTypeLines inputType options =
     importLines inputType options @ classHeaderLines inputType options
       @ classBodyLines inputType @ [''}'', []]"

definition generateInputTypeText :: "inputType \<Rightarrow> generatorOptions \<Rightarrow> string" where
  "generateInputTypeText inputType options =
     join [CHR 0x0A] (generateInputTypeLines inputType options)"

subsection \<open>The runs of generateInputTypeText\<close>

text \<open>
  The definitions above fix how the engine spreads a Set and how it sorts. The relation
  of this subsection leaves both open: it holds of every text that the function can
  return on an engine that keeps to what the two operations promise. The spread of a Set
  built from \<open>xs\<close> holds the elements of \<open>xs\<close>, each once, in an order that is not
  prescribed here; \<open>sort()\<close> returns the same elements, each as often as before, in
  ascending order, by whatever algorithm.
\<close>

definition spreadOfSet :: "string list \<Rightarrow> string list \<Rightarrow> bool" where
  "spreadOfSet xs ys = (distinct ys \<and> set ys = set xs)"

definition sortedCopy :: "string list \<Rightarrow> string list \<Rightarrow> bool" where
  "sortedCopy xs ys =
     (sorted ys \<and> list_all (\<lambda>x. count_list ys x = count_list xs x) (xs @ ys))"

text \<open>Lines 279 to 328 with the two sorted lists of lines 311 and 324 given.\<close>

definition importLinesWith ::
  "inputType \<Rightarrow> generatorOptions \<Rightarrow> string list \<Rightarrow> string list \<Rightarrow> string list" where
  \<open>importLinesWith inputType options sortedInputTypes sortedEnums =
     (let lines = [];
          lines = lines @ [''import * as TypeGraphQL from "type-graphql";''];
          lines = lines @ [''import * as GraphQLScalars from "graphql-scalars";''];
          prismaImportPath =
            (case customPrismaImportPath options of
               Some p \<Rightarrow> p
             | None \<Rightarrow> posixJoin [relativePrismaOutputPath options, ''client'']);
          prismaModuleSpecifier =
            (case absolutePrismaOutputPath options of
               Some p \<Rightarrow> p
             | None \<Rightarrow> posixJoin [''..'', ''..'', prismaImportPath]);
          lines = lines @ [''import { Prisma } from "'' @ prismaModuleSpecifier @ ''";''];
          scalarsPath = posixJoin [''..'', ''..'', ''scalars''];
          lines =
            (if hasBytes inputType
             then lines @ [''import { DecimalJSScalar, BytesScalar } from "'' @ scalarsPath @ ''";'']
             else lines @ [''import { DecimalJSScalar } from "'' @ scalarsPath @ ''";'']);
          lines =
            foldl (\<lambda>lines importName.
                lines @ [''import { '' @ importName @ '' } from "''
                           @ posixJoin [''..'', ''inputs'', importName] @ ''";''])
              lines sortedInputTypes;
          lines =
            foldl (\<lambda>lines enumName.
                lines @ [''import { '' @ enumName @ '' } from "''
                           @ posixJoin [''..'', ''..'', ''enums'', enumName] @ ''";''])
              lines sortedEnums
      in lines)\<close>

text \<open>Lines 273 to 397: a text that a run of the function can return.\<close>

inductive generateInputTypeTextRuns :: "inputType \<Rightarrow> generatorOptions \<Rightarrow> string \<Rightarrow> bool" where
  run:
    "spreadOfSet
       (filter (\<lambda>fieldType. fieldType \<noteq> inputType.typeName inputType)
         (map (\<lambda>field. type (selectedInputType field))
           (filter (\<lambda>field. location (selectedInputType field) = ''inputObjectTypes'')
             (fields' inputType))))
       spreadInputTypes \<Longrightarrow>
     sortedCopy spreadInputTypes sortedInputTypes \<Longrightarrow>
     spreadOfSet
       (map (\<lambda>fieldType. type fieldType)
         (filter (\<lambda>fieldType. location fieldType = ''enumTypes'')
           (map (\<lambda>field. selectedInputType field) (fields' inputType))))
       spreadEnums \<Longrightarrow>
     sortedCopy spreadEnums sortedEnums \<Longrightarrow>
     generateInputTypeTextRuns inputType options
       (join [CHR 0x0A]
          (importLinesWith inputType options sortedInputTypes sortedEnums
             @ classHeaderLines inputType options @ classBodyLines inputType @ [''}'', []]))"

section \<open>generateInputTypeClassFromType\<close>

text \<open>The structures of \<open>ts-morph\<close> that \<open>generateInputTypeClassFromType\<close> fills in.\<close>

record decoratorStructure =
  name :: string
  arguments :: "string list"

record propertyDeclarationStructure =
  name :: string
  type :: string
  hasExclamationToken :: bool
  hasQuestionToken :: bool
  trailingTrivia :: string
  decorators :: "decoratorStructure list"

record parameterDeclarationStructure =
  name :: string
  type :: string

record getAccessorDeclarationStructure =
  name :: string
  type :: string
  hasExclamationToken :: bool
  hasQuestionToken :: bool
  trailingTrivia :: string
  statements :: "string list"
  decorators :: "decoratorStructure list"

record setAccessorDeclarationStructure =
  name :: string
  type :: string
  hasExclamationToken :: bool
  hasQuestionToken :: bool
  trailingTrivia :: string
  parameters :: "parameterDeclarationStructure list"
  statements :: "string list"

record classDeclarationStructure =
  name :: string
  isExported :: bool
  decorators :: "decoratorStructure list"
  properties :: "propertyDeclarationStructure list"
  getAccessors :: "getAccessorDeclarationStructure list"
  setAccessors :: "setAccessorDeclarationStructure list"

text \<open>Lines 225 to 231 and 247 to 253: the \<open>TypeGraphQL.Field\<close> decorator of a field.\<close>

definition fieldDecorator :: "schemaArg \<Rightarrow> decoratorStructure" where
  "fieldDecorator field =
     \<lparr> decoratorStructure.name = ''TypeGraphQL.Field'',
       arguments = [''_type => '' @ typeGraphQLType field,
                    ''{ nullable: '' @ boolText (\<not> isRequired field) @ '' }''] \<rparr>"

text \<open>Lines 199 to 270: the class that \<open>generateInputTypeClassFromType\<close> adds to the
  source file of the input type. (The imports of that file are added by the helpers of
  \<open>generator/imports.ts\<close>, which are not among the sources.)\<close>

definition inputTypeClass :: "inputType \<Rightarrow> generatorOptions \<Rightarrow> classDeclarationStructure" where
  \<open>inputTypeClass inputType options =
     (let fieldsToEmit = filter (\<lambda>field. \<not> isOmitted field) (fields' inputType);
          mappedFields = filter (\<lambda>field. hasMappedName field) fieldsToEmit
      in \<lparr> classDeclarationStructure.name = inputType.typeName inputType,
           isExported = True,
           classDeclarationStructure.decorators =
             [\<lparr> decoratorStructure.name = ''TypeGraphQL.InputType'',
                arguments = [''"'' @ inputType.typeName inputType @ ''"'',
                             if emitIsAbstract options then ''{ isAbstract: true }'' else ''{}''] \<rparr>],
           properties =
             map (\<lambda>field.
                 \<lparr> propertyDeclarationStructure.name = schemaArg.name field,
                   propertyDeclarationStructure.type = fieldTSType field,
                   propertyDeclarationStructure.hasExclamationToken = isRequired field,
                   propertyDeclarationStructure.hasQuestionToken = (\<not> isRequired field),
                   propertyDeclarationStructure.trailingTrivia = [CHR 0x0D, CHR 0x0A],
                   propertyDeclarationStructure.decorators =
                     (if hasMappedName field then [] else [fieldDecorator field]) \<rparr>)
               fieldsToEmit,
           getAccessors =
             map (\<lambda>field.
                 \<lparr> getAccessorDeclarationStructure.name = schemaArg.typeName field,
                   getAccessorDeclarationStructure.type = fieldTSType field,
                   getAccessorDeclarationStructure.hasExclamationToken = isRequired field,
                   getAccessorDeclarationStructure.hasQuestionToken = (\<not> isRequired field),
                   getAccessorDeclarationStructure.trailingTrivia = [CHR 0x0D, CHR 0x0A],
                   getAccessorDeclarationStructure.statements =
                     [''return this.'' @ schemaArg.name field @ '';''],
                   getAccessorDeclarationStructure.decorators = [fieldDecorator field] \<rparr>)
               mappedFields,
           setAccessors =
             map (\<lambda>field.
                 \<lparr> setAccessorDeclarationStructure.name = schemaArg.typeName field,
                   setAccessorDeclarationStructure.type = fieldTSType field,
                   setAccessorDeclarationStructure.hasExclamationToken = isRequired field,
                   setAccessorDeclarationStructure.hasQuestionToken = (\<not> isRequired field),
                   setAccessorDeclarationStructure.trailingTrivia = [CHR 0x0D, CHR 0x0A],
                   parameters =
                     [\<lparr> parameterDeclarationStructure.name = schemaArg.name field,
                        parameterDeclarationStructure.type = fieldTSType field \<rparr>],
                   setAccessorDeclarationStructure.statements =
                     [''this.'' @ schemaArg.name field @ '' = '' @ schemaArg.name field @ '';''] \<rparr>)
               mappedFields \<rparr>)\<close>

section \<open>InputBlockGenerator\<close>

text \<open>The class of \<open>unnamed/part_000\<close>, lines 266 to 312.\<close>

text \<open>
  What the block generator needs from its surroundings: \<open>path.resolve\<close> (it depends on the
  platform and on the working directory), the folder names of \<open>generator/config.ts\<close> and
  the readings of \<open>performance.now()\<close>, one for each call.
\<close>

record environment =
  pathResolve :: "string list \<Rightarrow> string"
  resolversFolderName :: string
  inputsFolderName :: string
  performanceNow :: "nat \<Rightarrow> real"

text \<open>
  The effects of a block generator, in the order in which they happen: the directories made
  by \<open>fs.mkdirSync\<close>, the files written by \<open>fs.writeFileSync\<close> (path and content), the
  source files created in the \<open>ts-morph\<close> project (for the barrel file: its path and the
  names handed to \<open>generateInputsBarrelFile\<close>; the project is saved to disk by the emission
  stage), and the number of readings of the clock. The calls of the file system are
  taken to return.
\<close>

record world =
  directories :: "string list"
  fileWrites :: "(string \<times> string) list"
  sourceFiles :: "(string \<times> string list) list"
  timeReads :: nat

record dmmfSchema =
  inputTypes :: "inputType list"

record dmmfDocument =
  schema :: dmmfSchema
  blocksToEmit :: "string list"

text \<open>Modelled from the spec: \<open>DmmfDocument.shouldGenerateBlock\<close> is not among the sources.
  The configuration names the block kinds to emit (an allow-list); a block is generated
  when its kind is on the list.\<close>

definition shouldGenerateBlock :: "dmmfDocument \<Rightarrow> string \<Rightarrow> bool" where
  "shouldGenerateBlock document block = (block \<in> set (blocksToEmit document))"

record blockGenerator =
  dmmfDocument :: dmmfDocument
  options :: generatorOptions
  baseDirPath :: string

record generationMetrics =
  itemsGenerated :: nat
  timeElapsed :: "real option"
  directWrittenFilePaths :: "string list option"

definition shouldGenerate :: "blockGenerator \<Rightarrow> bool" where
  "shouldGenerate this = shouldGenerateBlock (dmmfDocument this) ''inputs''"

definition getBlockName :: "blockGenerator \<Rightarrow> string" where
  "getBlockName this = ''inputs''"

text \<open>The body of the loop over the input types: the state is \<open>allInputTypes\<close>,
  \<open>directWrittenFilePaths\<close> and the world.\<close>

definition writeInputType ::
  "environment \<Rightarrow> blockGenerator \<Rightarrow> string \<Rightarrow> string list \<times> string list \<times> world \<Rightarrow> inputType
     \<Rightarrow> string list \<times> string list \<times> world" where
  "writeInputType env this inputsDirPath =
     (\<lambda>(allInputTypes, directWrittenFilePaths, w) type'.
        (let allInputTypes = allInputTypes @ [inputType.typeName type'];
             filePath = pathResolve env [inputsDirPath, inputType.typeName type' @ ''.ts''];
             content = generateInputTypeText type' (options this);
             w = w\<lparr> fileWrites := fileWrites w @ [(filePath, content)] \<rparr>;
             directWrittenFilePaths = directWrittenFilePaths @ [filePath]
         in (allInputTypes, directWrittenFilePaths, w)))"

definition InputBlockGenerator_generate ::
  "environment \<Rightarrow> blockGenerator \<Rightarrow> world \<Rightarrow> generationMetrics \<times> world" where
  "InputBlockGenerator_generate env this w =
     (if \<not> shouldGenerate this
      then (\<lparr> itemsGenerated = 0, timeElapsed = None, directWrittenFilePaths = None \<rparr>, w)
      else
        (let startTime = performanceNow env (timeReads w);
             w = w\<lparr> timeReads := timeReads w + 1 \<rparr>;
             inputsDirPath =
               pathResolve env [baseDirPath this, resolversFolderName env, inputsFolderName env];
             w = w\<lparr> directories := directories w @ [inputsDirPath] \<rparr>;
             (allInputTypes, directWrittenFilePaths, w) =
               foldl (writeInputType env this inputsDirPath) ([], [], w)
                 (inputTypes (schema (dmmfDocument this)));
             w = w\<lparr> sourceFiles := sourceFiles w
                   @ [(pathResolve env [inputsDirPath, ''index.ts''], allInputTypes)] \<rparr>;
             endTime = performanceNow env (timeReads w);
             w = w\<lparr> timeReads := timeReads w + 1 \<rparr>
         in (\<lparr> itemsGenerated = length (inputTypes (schema (dmmfDocument this))),
               timeElapsed = Some (endTime - startTime),
               directWrittenFilePaths = Some directWrittenFilePaths \<rparr>, w)))"

section \<open>CodeGenerator\<close>

text \<open>The class of \<open>unnamed/part_002\<close>, the version of the code generator that emits with
  worker threads; the line numbers of this section are those of that file. Lines 90 to 92
  of \<open>unnamed/part_001\<close> choose the emission mode in the same way.\<close>

subsection \<open>Options\<close>

text \<open>\<open>formatGeneratedCode\<close> is a boolean, the name of a formatter, or left out.\<close>

datatype formatter = Prettier | Tsc | Biome

datatype formatOption = FormatFlag bool | FormatWith formatter

text \<open>The members of the base options that decide how the code is emitted.\<close>

record baseGeneratorOptions =
  outputDirPath :: string
  emitTranspiledCode :: "bool option"
  formatGeneratedCode :: "formatOption option"

definition resolveFormatGeneratedCodeOption :: "formatOption option \<Rightarrow> formatter option" where
  "resolveFormatGeneratedCodeOption formatOption =
     (if formatOption = Some (FormatFlag False) \<or> formatOption = None then None
      else if formatOption = Some (FormatFlag True) then Some Tsc
      else (case formatOption of Some (FormatWith f) \<Rightarrow> Some f | _ \<Rightarrow> None))"

text \<open>\<open>String.prototype.includes\<close>, written \<open>includes'\<close>.\<close>

fun startsWith :: "string \<Rightarrow> string \<Rightarrow> bool" where
  "startsWith s [] = True"
| "startsWith [] (c # cs) = False"
| "startsWith (x # xs) (c # cs) = (x = c \<and> startsWith xs cs)"

fun includes' :: "string \<Rightarrow> string \<Rightarrow> bool" where
  "includes' [] searchString = (searchString = [])"
| "includes' (x # xs) searchString =
     (startsWith (x # xs) searchString \<or> includes' xs searchString)"

text \<open>Lines 115 to 117 of \<open>CodeGenerator.generate\<close>: the emission mode.\<close>

definition emitTranspiledCode' :: "baseGeneratorOptions \<Rightarrow> bool" where
  "emitTranspiledCode' baseOptions =
     (case emitTranspiledCode baseOptions of
        Some b \<Rightarrow> b
      | None \<Rightarrow> includes' (outputDirPath baseOptions) ''node_modules'')"

subsection \<open>Numbers in template literals\<close>

fun natText :: "nat \<Rightarrow> string" where
  "natText n =
     (if n < 10 then [''0123456789'' ! n]
      else natText (n div 10) @ [''0123456789'' ! (n mod 10)])"

declare natText.simps [simp del]

definition intText :: "int \<Rightarrow> string" where
  "intText i = (if i < 0 then ''-'' @ natText (nat (- i)) else natText (nat i))"

subsection \<open>The log and the metrics of a run\<close>

text \<open>The messages handed to the logging callback and the metrics emitted (name and item
  count; the durations are not modelled), each in the order of the calls.\<close>

record runLog =
  logs :: "string list"
  metrics :: "(string \<times> nat option) list"

definition log' :: "string \<Rightarrow> runLog \<Rightarrow> runLog" where
  "log' msg r = r\<lparr> logs := logs r @ [msg] \<rparr>"

definition emitMetric :: "string \<Rightarrow> nat option \<Rightarrow> runLog \<Rightarrow> runLog" where
  "emitMetric metricName count r = r\<lparr> metrics := metrics r @ [(metricName, count)] \<rparr>"

subsection \<open>The surroundings of a run\<close>

text \<open>How a worker thread ends: it exits with a code, or it emits an error (rendered as
  a string) before that. \<open>settledAt\<close> is the time at which its promise settles.\<close>

datatype workerOutcome = Exited int | Errored string

record workerRun =
  outcome :: workerOutcome
  settledAt :: nat

text \<open>
  The outcomes of what \<open>CodeGenerator.generate\<close> calls and the sources do not hold. An
  optional string is the message of the error thrown (\<open>None\<close>: the call returns).
  \<open>blockGeneration\<close> is the outcome of \<open>generateAllBlocks\<close>: the block names and metrics
  handed to the callback. \<open>projectFiles\<close> and \<open>inputProjectFiles\<close> are the source files the
  block generators created in the two projects. \<open>jsWorker i\<close> is the run of the worker of
  batch \<open>i\<close>. \<open>execa command cwd\<close> is the outcome of the formatter's subprocess;
  \<open>access\<close> tells whether \<open>fs.promises.access\<close> finds the file.
  \<open>Project.getSourceFiles()\<close> returns the source files of a project in an order of its
  own (by the depth of the directory, then by name as \<open>ts-morph\<close> compares names), not in
  the order of their creation: \<open>sourceFileRank\<close> is the place of a path in that order.
  The assembly of the options and \<open>require.resolve\<close> are taken to return, every worker
  is taken to settle, and what \<open>generateAllBlocks\<close> itself hands to the logging callback
  is left out.
\<close>

record runEnvironment = environment +
  prismaPackageCheck :: "string option"
  documentCreation :: "string option"
  blockGeneration :: "string + (string \<times> generationMetrics) list"
  projectFiles :: "string list"
  inputProjectFiles :: "string list"
  auxiliaryFiles :: "string option"
  projectSave :: "string option"
  cpus :: nat
  jsWorker :: "nat \<Rightarrow> workerRun"
  dtsWorker :: workerOutcome
  execa :: "string \<Rightarrow> string \<Rightarrow> string option"
  access :: "string \<Rightarrow> bool"
  sourceFileRank :: "string \<Rightarrow> nat"

subsection \<open>fastEmitTranspiledCode\<close>

text \<open>Line 352: the number of transpile workers.\<close>

definition jsWorkerCount :: "nat \<Rightarrow> nat" where
  "jsWorkerCount cpuCount = nat (min (max 1 (int cpuCount - 2)) 8)"

text \<open>Lines 366 to 368: the loop that cuts the file list into batches. With a batch size of
  zero and a file left it would not end, so its result is an option.\<close>

partial_function (option) batchLoop ::
  "string list \<Rightarrow> nat \<Rightarrow> nat \<Rightarrow> string list list \<Rightarrow> string list list option" where
  "batchLoop allFilePaths batchSize i jsBatches =
     (if i < length allFilePaths
      then batchLoop allFilePaths batchSize (i + batchSize)
             (jsBatches @ [take batchSize (drop i allFilePaths)])
      else Some jsBatches)"

declare batchLoop.simps [code]

text \<open>Lines 364 to 368.\<close>

definition jsBatchesOf :: "nat \<Rightarrow> string list \<Rightarrow> string list list option" where
  "jsBatchesOf cpuCount allFilePaths =
     (let batchSize = nat \<lceil>real (length allFilePaths) / real (jsWorkerCount cpuCount)\<rceil>
      in batchLoop allFilePaths batchSize 0 [])"

text \<open>The promise of a worker (lines 382 to 387 and 401 to 406): it resolves when the worker
  exits with code 0, and rejects with an error otherwise. A rejection is the reason as
  the template literal of line 421 renders it.\<close>

definition workerPromise :: "string \<Rightarrow> workerOutcome \<Rightarrow> string + unit" where
  "workerPromise kind result =
     (case result of
        Exited code \<Rightarrow>
          (if code = 0 then Inr ()
           else Inl (''Error: '' @ kind @ '' worker exited with code '' @ intText code))
      | Errored e \<Rightarrow> Inl e)"

text \<open>\<open>Promise.all\<close>: it rejects with the reason of the promise that rejects first, and
  resolves when all have resolved.\<close>

fun firstRejection ::
  "(nat \<times> string) option \<Rightarrow> ((string + unit) \<times> nat) list \<Rightarrow> (nat \<times> string) option" where
  "firstRejection best [] = best"
| "firstRejection best ((Inr v, t) # ps) = firstRejection best ps"
| "firstRejection best ((Inl reason, t) # ps) =
     firstRejection
       (case best of
          None \<Rightarrow> Some (t, reason)
        | Some (t', reason') \<Rightarrow> if t < t' then Some (t, reason) else Some (t', reason'))
       ps"

definition promiseAll :: "((string + unit) \<times> nat) list \<Rightarrow> string + unit" where
  "promiseAll ps =
     (case firstRejection None ps of None \<Rightarrow> Inr () | Some (t, reason) \<Rightarrow> Inl reason)"

text \<open>Lines 321 to 426. The result is \<open>None\<close> when the call does not return, \<open>Inl\<close> with
  the message when it throws.\<close>

definition fastEmitTranspiledCode ::
  "runEnvironment \<Rightarrow> string list \<Rightarrow> string list \<Rightarrow> runLog \<Rightarrow> ((string + unit) \<times> runLog) option" where
  "fastEmitTranspiledCode env sourceFilePaths additionalFilePaths r =
     (case projectSave env of
        Some e \<Rightarrow> Some (Inl e, r)
      | None \<Rightarrow>
          (let r = emitMetric ''save-ts-files'' None r;
               allFilePaths = sourceFilePaths @ additionalFilePaths;
               r = log' (''  Emitting .js ('' @ natText (jsWorkerCount (cpus env))
                           @ '' workers) + .d.ts (1 worker) in parallel'') r
           in case jsBatchesOf (cpus env) allFilePaths of
                None \<Rightarrow> None
              | Some jsBatches \<Rightarrow>
                  (let jsResult =
                         promiseAll
                           (map (\<lambda>i. (workerPromise ''JS'' (outcome (jsWorker env i)),
                                       settledAt (jsWorker env i)))
                              [0..<length jsBatches]);
                       dtsResult = workerPromise ''DTS'' (dtsWorker env);
                       r = emitMetric ''emit-js-dts'' (Some (length allFilePaths)) r
                   in case jsResult of
                        Inl reason \<Rightarrow> Some (Inl (''JS emission failed: '' @ reason), r)
                      | Inr v \<Rightarrow>
                          (case dtsResult of
                             Inl reason \<Rightarrow> Some (Inl (''DTS emission failed: '' @ reason), r)
                           | Inr v \<Rightarrow> Some (Inr (), r)))))"

subsection \<open>The formatting step\<close>

definition formatterText :: "formatter \<Rightarrow> string" where
  "formatterText f = (case f of Prettier \<Rightarrow> ''prettier'' | Tsc \<Rightarrow> ''tsc'' | Biome \<Rightarrow> ''biome'')"

text \<open>The command handed to \<open>execa\<close> (lines 245 to 246, 254 to 278 and 288 to 297).\<close>

definition formatCommand :: "runEnvironment \<Rightarrow> formatter \<Rightarrow> string \<Rightarrow> string" where
  \<open>formatCommand env f baseDirPath' =
     (if f = Tsc then ''tsc '' @ join '' '' [''--noEmit'', ''--project'', baseDirPath']
      else if f = Prettier then
        (let prettierArgs =
               [''--write'', baseDirPath' @ ''/**/*.ts'', ''--ignore-path'',
                pathResolve env [baseDirPath', ''.prettierignore'']];
             prettierArgs =
               (if access env (pathResolve env [baseDirPath', ''.prettierrc'']) then prettierArgs
                else prettierArgs @ [''--config'',
                  ''{"semi":true,"trailingComma":"es5","singleQuote":false,"printWidth":120,"tabWidth":2,"useTabs":false}''])
         in ''npx prettier '' @ join '' '' prettierArgs)
      else ''npx biome '' @ join '' '' [''format'', ''--write'', baseDirPath' @ ''/**/*.ts''])\<close>

text \<open>Lines 239 to 307, the body of the \<open>try\<close>: the message of the error thrown, if any,
  and the log at that point.\<close>

definition tryFormat :: "runEnvironment \<Rightarrow> formatter \<Rightarrow> string \<Rightarrow> runLog \<Rightarrow> string option \<times> runLog" where
  "tryFormat env f baseDirPath' r =
     (let r = log' (''Formatting generated code with '' @ formatterText f) r
      in case execa env (formatCommand env f baseDirPath') baseDirPath' of
           Some message \<Rightarrow> (Some message, r)
         | None \<Rightarrow>
             (let r = emitMetric (formatterText f @ ''-formatting'') None r;
                  r = emitMetric ''code-formatting'' None r
              in (None, r)))"

text \<open>Lines 237 to 314: the \<open>try\<close> with its \<open>catch\<close>.\<close>

definition formatGeneratedCode' :: "runEnvironment \<Rightarrow> formatter option \<Rightarrow> string \<Rightarrow> runLog \<Rightarrow> runLog" where
  "formatGeneratedCode' env formatOption baseDirPath' r =
     (case formatOption of
        None \<Rightarrow> r
      | Some f \<Rightarrow>
          (case tryFormat env f baseDirPath' r of
             (Some message, r) \<Rightarrow> log' (''Warning: Code formatting failed: '' @ message) r
           | (None, r) \<Rightarrow> r))"

subsection \<open>generate\<close>

text \<open>\<open>project.createSourceFile(path, undefined, { overwrite: true })\<close>, on the list of the
  paths of the project's source files.\<close>

definition createSourceFile :: "string list \<Rightarrow> string \<Rightarrow> string list" where
  "createSourceFile project filePath =
     (if filePath \<in> set project then project else project @ [filePath])"

text \<open>Lines 156 to 167: the callback handed to \<open>generateAllBlocks\<close>.\<close>

definition blockCallback ::
  "string list \<times> runLog \<Rightarrow> string \<times> generationMetrics \<Rightarrow> string list \<times> runLog" where
  "blockCallback =
     (\<lambda>(directWrittenFilePaths, r) (blockName, blockMetrics).
        (let r = (case timeElapsed blockMetrics of
                    None \<Rightarrow> r
                  | Some t \<Rightarrow>
                      if t \<noteq> 0
                      then emitMetric (blockName @ ''-generation'')
                             (Some (itemsGenerated blockMetrics)) r
                      else r);
             directWrittenFilePaths =
               (case generationMetrics.directWrittenFilePaths blockMetrics of
                  None \<Rightarrow> directWrittenFilePaths
                | Some paths \<Rightarrow> directWrittenFilePaths @ paths)
         in (directWrittenFilePaths, r)))"

text \<open>Lines 173 to 206: the source files of the auxiliary files.\<close>

definition withAuxiliaryFiles :: "string list \<Rightarrow> string \<Rightarrow> string list" where
  "withAuxiliaryFiles project baseDirPath' =
     (let project = createSourceFile project (baseDirPath' @ ''/enhance.ts'');
          project = createSourceFile project (baseDirPath' @ ''/scalars.ts'');
          project = createSourceFile project (baseDirPath' @ ''/helpers.ts'');
          project = createSourceFile project (baseDirPath' @ ''/index.ts'')
      in project)"

text \<open>\<open>Project.getSourceFiles()\<close>, on the list of the paths of the project's source files.\<close>

definition getSourceFiles :: "runEnvironment \<Rightarrow> string list \<Rightarrow> string list" where
  "getSourceFiles env project = sort_key (sourceFileRank env) project"

text \<open>Line 327, for the two projects of line 217.\<close>

definition sourceFilePaths :: "runEnvironment \<Rightarrow> string \<Rightarrow> string list" where
  "sourceFilePaths env baseDirPath' =
     getSourceFiles env (withAuxiliaryFiles (projectFiles env) baseDirPath')
       @ getSourceFiles env (inputProjectFiles env)"

text \<open>The file list of the emission stage (lines 333 to 336).\<close>

definition allFilePaths :: "runEnvironment \<Rightarrow> string \<Rightarrow> string list \<Rightarrow> string list" where
  "allFilePaths env baseDirPath' additionalFilePaths =
     sourceFilePaths env baseDirPath' @ additionalFilePaths"

text \<open>Lines 219 to 234: the emission of the code.\<close>

definition emitFinalCode ::
  "runEnvironment \<Rightarrow> bool \<Rightarrow> string \<Rightarrow> string list \<Rightarrow> runLog \<Rightarrow> ((string + unit) \<times> runLog) option" where
  "emitFinalCode env transpile baseDirPath' directWrittenFilePaths' r =
     (let r = log' ''Emitting final code'' r
      in if transpile then
           (let r = log' ''Transpiling generated code'' r
            in fastEmitTranspiledCode env (sourceFilePaths env baseDirPath')
                 directWrittenFilePaths' r)
         else
           (let r = log' ''Saving generated code'' r
            in case projectSave env of
                 Some e \<Rightarrow> Some (Inl e, r)
               | None \<Rightarrow> Some (Inr (), emitMetric ''save-files'' None r)))"

text \<open>Lines 90 to 319. The result is \<open>None\<close> when the call does not return; otherwise it
  is \<open>Inl\<close> with the message of the error that ends the run or \<open>Inr ()\<close>, with the log
  and the metrics up to there.\<close>

definition CodeGenerator_generate ::
  "runEnvironment \<Rightarrow> baseGeneratorOptions \<Rightarrow> ((string + unit) \<times> runLog) option" where
  "CodeGenerator_generate env baseOptions =
     (let r = \<lparr> logs = [], metrics = [] \<rparr>
      in case prismaPackageCheck env of
           Some e \<Rightarrow> Some (Inl e, r)
         | None \<Rightarrow>
      (let formatOption = resolveFormatGeneratedCodeOption (formatGeneratedCode baseOptions);
           baseDirPath = outputDirPath baseOptions;
           transpile = emitTranspiledCode' baseOptions;
           r = log' ''Transforming dmmfDocument...'' r
       in case documentCreation env of
            Some e \<Rightarrow> Some (Inl e, r)
          | None \<Rightarrow>
      (let r = emitMetric ''dmmf-document-creation'' None r
       in case blockGeneration env of
            Inl e \<Rightarrow> Some (Inl e, r)
          | Inr blocks \<Rightarrow>
      (let (directWrittenFilePaths, r) = foldl blockCallback ([], r) blocks;
           r = log' ''Generate auxiliary files'' r
       in case auxiliaryFiles env of
            Some e \<Rightarrow> Some (Inl e, r)
          | None \<Rightarrow>
      (let r = emitMetric ''auxiliary-files'' None r
       in case emitFinalCode env transpile baseDirPath directWrittenFilePaths r of
            None \<Rightarrow> None
          | Some (Inl e, r) \<Rightarrow> Some (Inl e, r)
          | Some (Inr v, r) \<Rightarrow>
              (let r = formatGeneratedCode' env formatOption baseDirPath r;
                   r = emitMetric ''code-emission'' None r;
                   r = emitMetric ''total-generation'' None r
               in Some (Inr (), r)))))))"

section \<open>The stated layout of the class body\<close>



section \<open>Example inputs\<close>

definition exampleOptions :: generatorOptions where
  "exampleOptions =
     \<lparr> customPrismaImportPath = None, relativePrismaOutputPath = ''../../client'',
       absolutePrismaOutputPath = None, emitIsAbstract = False \<rparr>"

definition contentField :: schemaArg where
  "contentField =
     \<lparr> schemaArg.name = ''content'', schemaArg.typeName = ''content'', fieldTSType = ''string'',
       typeGraphQLType = ''String'', isRequired = True, isOmitted = False,
       hasMappedName = False, selectedInputType = \<lparr> location = ''scalar'', type = ''String'' \<rparr> \<rparr>"

definition colorField :: schemaArg where
  "colorField =
     \<lparr> schemaArg.name = ''color'', schemaArg.typeName = ''colour'', fieldTSType = ''Color'',
       typeGraphQLType = ''Color'', isRequired = True, isOmitted = False,
       hasMappedName = True, selectedInputType = \<lparr> location = ''enumTypes'', type = ''Color'' \<rparr> \<rparr>"

definition authorField :: schemaArg where
  "authorField =
     \<lparr> schemaArg.name = ''author'', schemaArg.typeName = ''author'', fieldTSType = ''UserInput'',
       typeGraphQLType = ''UserInput'', isRequired = False, isOmitted = True,
       hasMappedName = False,
       selectedInputType = \<lparr> location = ''inputObjectTypes'', type = ''UserInput'' \<rparr> \<rparr>"

definition examplePost :: inputType where
  "examplePost = \<lparr> inputType.typeName = ''PostInput'', fields' = [contentField, authorField, colorField] \<rparr>"

definition referenceField :: "string \<Rightarrow> string \<Rightarrow> string \<Rightarrow> schemaArg" where
  "referenceField fieldName kind target =
     \<lparr> schemaArg.name = fieldName, schemaArg.typeName = fieldName, fieldTSType = target,
       typeGraphQLType = target, isRequired = False, isOmitted = False,
       hasMappedName = False, selectedInputType = \<lparr> location = kind, type = target \<rparr> \<rparr>"

definition exampleUser :: inputType where
  "exampleUser =
     \<lparr> inputType.typeName = ''UserInput'',
       fields' = [referenceField ''posts'' ''inputObjectTypes'' ''PostInput'',
                  referenceField ''friend'' ''inputObjectTypes'' ''UserInput'',
                  referenceField ''drafts'' ''inputObjectTypes'' ''PostInput'',
                  referenceField ''avatar'' ''scalar'' ''Bytes'',
                  referenceField ''eyes'' ''enumTypes'' ''Color'',
                  referenceField ''comments'' ''inputObjectTypes'' ''CommentInput'',
                  referenceField ''hair'' ''enumTypes'' ''Color''] \<rparr>"

definition exampleEnvironment :: environment where
  "exampleEnvironment =
     \<lparr> pathResolve = posixJoin, resolversFolderName = ''resolvers'',
       inputsFolderName = ''inputs'', performanceNow = (\<lambda>n. real n) \<rparr>"

definition exampleGenerator :: "string list \<Rightarrow> blockGenerator" where
  "exampleGenerator blocks =
     \<lparr> dmmfDocument =
         \<lparr> schema = \<lparr> inputTypes = [examplePost, exampleUser] \<rparr>, blocksToEmit = blocks \<rparr>,
       options = exampleOptions, baseDirPath = ''/out'' \<rparr>"

definition emptyWorld :: world where
  "emptyWorld = \<lparr> directories = [], fileWrites = [], sourceFiles = [], timeReads = 0 \<rparr>"

definition exampleRun :: runEnvironment where
  "exampleRun =
     \<lparr> pathResolve = posixJoin, resolversFolderName = ''resolvers'',
       inputsFolderName = ''inputs'', performanceNow = (\<lambda>n. real n),
       prismaPackageCheck = None, documentCreation = None,
       blockGeneration =
         Inr [(''enums'',
               \<lparr> itemsGenerated = 1, timeElapsed = Some 2, directWrittenFilePaths = None \<rparr>),
              (''inputs'',
               \<lparr> itemsGenerated = 2, timeElapsed = Some 3,
                 directWrittenFilePaths =
                   Some [''/out/resolvers/inputs/PostInput.ts'',
                         ''/out/resolvers/inputs/UserInput.ts''] \<rparr>)],
       projectFiles = [''/out/enums/Color.ts''], inputProjectFiles = [],
       auxiliaryFiles = None, projectSave = None, cpus = 4,
       jsWorker = (\<lambda>i. \<lparr> outcome = Exited 0, settledAt = i \<rparr>), dtsWorker = Exited 0,
       execa = (\<lambda>command cwd. None), access = (\<lambda>filePath. False),
       sourceFileRank =
         (\<lambda>filePath.
            if filePath = ''/out/enhance.ts'' then 0
            else if filePath = ''/out/helpers.ts'' then 1
            else if filePath = ''/out/index.ts'' then 2
            else if filePath = ''/out/scalars.ts'' then 3
            else 4) \<rparr>"

text \<open>The transpile worker of batch \<open>k\<close> exits with code 1, the others with code 0.\<close>

definition failingBatch :: "nat \<Rightarrow> nat \<Rightarrow> workerRun" where
  "failingBatch k = (\<lambda>i. \<lparr> outcome = (if i = k then Exited 1 else Exited 0), settledAt = i \<rparr>)"



section \<open>Properties of the input type generator\<close>

subsection \<open>Sets, loops and import lines\<close>

lemma set_setInsertAll: "set (setInsertAll acc xs) = set acc \<union> set xs"
  by (induction xs arbitrary: acc) auto

lemma distinct_setInsertAll: "distinct acc \<Longrightarrow> distinct (setInsertAll acc xs)"
  by (induction xs arbitrary: acc) auto

lemma set_setValues: "set (setValues xs) = set xs"
  by (simp add: setValues_def set_setInsertAll)

lemma distinct_setValues: "distinct (setValues xs)"
  by (simp add: setValues_def distinct_setInsertAll)

lemma foldl_push: "foldl (\<lambda>lines x. lines @ [g x]) lines xs = lines @ map g xs"
  by (induction xs arbitrary: lines) auto





lemma importLines_eq:
  \<open>importLines t opts =
     [''import * as TypeGraphQL from "type-graphql";'',
      ''import * as GraphQLScalars from "graphql-scalars";'',
      ''import { Prisma } from "'' @
         (case absolutePrismaOutputPath opts of Some p \<Rightarrow> p
          | None \<Rightarrow> posixJoin [''..'', ''..'',
              (case customPrismaImportPath opts of Some p \<Rightarrow> p
               | None \<Rightarrow> posixJoin [relativePrismaOutputPath opts, ''client''])]) @ ''";'',
      (if hasBytes t then ''import { DecimalJSScalar, BytesScalar } from "../../scalars";''
       else ''import { DecimalJSScalar } from "../../scalars";'')]
     @ map (\<lambda>importName. ''import { '' @ importName @ '' } from "''
              @ posixJoin [''..'', ''inputs'', importName] @ ''";'') (inputTypeImports t)
     @ map (\<lambda>enumName. ''import { '' @ enumName @ '' } from "''
              @ posixJoin [''..'', ''..'', ''enums'', enumName] @ ''";'') (enumImports t)\<close>
proof -
  have sp: "posixJoin [''..'', ''..'', ''scalars''] = ''../../scalars''"
    by code_simp
  show ?thesis
    unfolding importLines_def Let_def foldl_push sp
    by simp
qed

lemma fieldsToEmit_omitted:
  "isOmitted f \<Longrightarrow> fieldsToEmit (t\<lparr>fields' := xs @ f # ys\<rparr>) = fieldsToEmit (t\<lparr>fields' := xs @ ys\<rparr>)"
  by (simp add: fieldsToEmit_def)

subsection \<open>Omitted fields\<close>

text \<open>
  Claim C2. A field whose \<open>isOmitted\<close> flag is set leaves no trace among the members of the
  class: the lines that \<open>generateInputTypeText\<close> puts between the braces of the class, and
  the class structure that \<open>generateInputTypeClassFromType\<close> builds (properties, getters,
  setters and decorators), are those of the type with that field taken out of its field
  list. What is rendered for the other fields is therefore what would be rendered were the
  omitted field absent.
\<close>

theorem omitted_fields_not_emitted:
  assumes "isOmitted f"
  shows "classBodyLines (t\<lparr>fields' := xs @ f # ys\<rparr>) = classBodyLines (t\<lparr>fields' := xs @ ys\<rparr>)
       \<and> inputTypeClass (t\<lparr>fields' := xs @ f # ys\<rparr>) opts = inputTypeClass (t\<lparr>fields' := xs @ ys\<rparr>) opts"
proof
  show "classBodyLines (t\<lparr>fields' := xs @ f # ys\<rparr>) = classBodyLines (t\<lparr>fields' := xs @ ys\<rparr>)"
    using assms by (simp add: classBodyLines_def mappedFields_def fieldsToEmit_omitted)
  show "inputTypeClass (t\<lparr>fields' := xs @ f # ys\<rparr>) opts = inputTypeClass (t\<lparr>fields' := xs @ ys\<rparr>) opts"
    using assms by (simp add: inputTypeClass_def)
qed

text \<open>The omitted field \<open>author\<close> of the example type, between \<open>content\<close> and \<open>color\<close>.\<close>

theorem omitted_fields_not_emitted_witness:
  "isOmitted authorField
   \<and> classBodyLines examplePost
       = classBodyLines \<lparr> inputType.typeName = ''PostInput'', fields' = [contentField, colorField] \<rparr>
   \<and> inputTypeClass examplePost exampleOptions
       = inputTypeClass \<lparr> inputType.typeName = ''PostInput'', fields' = [contentField, colorField] \<rparr> exampleOptions"
proof -
  have h: "isOmitted authorField" by (simp add: authorField_def)
  show ?thesis
    using h omitted_fields_not_emitted[where f = authorField and t = examplePost
        and xs = "[contentField]" and ys = "[colorField]" and opts = exampleOptions]
    by (simp add: examplePost_def)
qed

subsection \<open>Imports of input types and enums\<close>



text \<open>
  Claim C4. The members of the class are blocks with a blank line between them: one block
  for every field that is not omitted, in the order of the fields, then one block for
  every such field with a mapped name. A field without a mapped name is a single property
  under the decorator \<open>@TypeGraphQL.Field\<close>, which names the GraphQL type of the field
  and whether it is nullable. A field with a mapped name (\<open>hasMappedName\<close>) is a property
  without a decorator, and its second block is a getter under that same decorator and a
  setter, both named by the exposed name \<open>typeName\<close> and reading and writing the
  property; no other field gets accessors. The class structure of
  \<open>generateInputTypeClassFromType\<close> is built the same way: a property carries the
  decorator \<open>TypeGraphQL.Field\<close> exactly when the field has no mapped name, and the
  getters, each under that decorator, and the setters are those of the fields with a
  mapped name.
\<close>



subsection \<open>Custom scalars\<close>

lemma generateInputTypeLines_scalars:
  \<open>generateInputTypeLines t opts ! 3
     = (if hasBytes t then ''import { DecimalJSScalar, BytesScalar } from "../../scalars";''
        else ''import { DecimalJSScalar } from "../../scalars";'')\<close>
  unfolding generateInputTypeLines_def importLines_eq by simp

text \<open>
  Claim C5, as stated, fails: the binding \<open>DecimalJSScalar\<close> is imported whether or not a
  field is of a decimal kind. Here the only field is a \<open>String\<close>.
\<close>

theorem custom_scalar_import_counterexample:
  \<open>map (\<lambda>f. typeInfo.type (selectedInputType f))
       (fields' \<lparr> inputType.typeName = ''NoteInput'', fields' = [contentField] \<rparr>)
     = [''String'']
   \<and> generateInputTypeLines \<lparr> inputType.typeName = ''NoteInput'', fields' = [contentField] \<rparr>
         exampleOptions ! 3
       = ''import { DecimalJSScalar } from "../../scalars";''\<close>
  by (simp add: generateInputTypeLines_scalars hasBytes_def contentField_def)

text \<open>
  Claim C5, amended. The fourth line of the text is the import of the custom scalars. It
  always imports \<open>DecimalJSScalar\<close>; it imports \<open>BytesScalar\<close> as well exactly when the
  selected input type of some field is \<open>Bytes\<close>.
\<close>

theorem bytes_scalar_import:
  \<open>generateInputTypeLines t opts ! 3
     = (if (\<exists>f \<in> set (fields' t). typeInfo.type (selectedInputType f) = ''Bytes'')
        then ''import { DecimalJSScalar, BytesScalar } from "../../scalars";''
        else ''import { DecimalJSScalar } from "../../scalars";'')\<close>
  by (simp add: generateInputTypeLines_scalars hasBytes_def list_ex_iff)

text \<open>A type with a \<open>Bytes\<close> field and a type without one.\<close>

theorem bytes_scalar_import_witness:
  \<open>generateInputTypeLines exampleUser exampleOptions ! 3
     = ''import { DecimalJSScalar, BytesScalar } from "../../scalars";''
   \<and> generateInputTypeLines examplePost exampleOptions ! 3
     = ''import { DecimalJSScalar } from "../../scalars";''\<close>
  using bytes_scalar_import[of exampleUser exampleOptions]
        bytes_scalar_import[of examplePost exampleOptions]
  by (simp add: exampleUser_def examplePost_def referenceField_def contentField_def
      authorField_def colorField_def)

section \<open>Properties of the input block generator\<close>

lemma writeInputType_step:
  "writeInputType env this d (names, paths, w) t
     = (names @ [inputType.typeName t],
        paths @ [pathResolve env [d, inputType.typeName t @ ''.ts'']],
        w\<lparr> fileWrites := fileWrites w
             @ [(pathResolve env [d, inputType.typeName t @ ''.ts''],
                 generateInputTypeText t (options this))] \<rparr>)"
  by (simp add: writeInputType_def Let_def)

lemma foldl_writeInputType:
  "foldl (writeInputType env this d) (names, paths, w) ts
     = (names @ map inputType.typeName ts,
        paths @ map (\<lambda>t. pathResolve env [d, inputType.typeName t @ ''.ts'']) ts,
        w\<lparr> fileWrites := fileWrites w
             @ map (\<lambda>t. (pathResolve env [d, inputType.typeName t @ ''.ts''],
                          generateInputTypeText t (options this))) ts \<rparr>)"
  by (induction ts arbitrary: names paths w) (simp_all add: writeInputType_step)

lemma InputBlockGenerator_generate_eq:
  "InputBlockGenerator_generate env this w =
     (let types = inputTypes (schema (dmmfDocument this));
          inputsDirPath =
            pathResolve env [baseDirPath this, resolversFolderName env, inputsFolderName env];
          filePath = (\<lambda>t. pathResolve env [inputsDirPath, inputType.typeName t @ ''.ts''])
      in if shouldGenerateBlock (dmmfDocument this) ''inputs''
         then (\<lparr> itemsGenerated = length types,
                 timeElapsed =
                   Some (performanceNow env (timeReads w + 1) - performanceNow env (timeReads w)),
                 directWrittenFilePaths = Some (map filePath types) \<rparr>,
               \<lparr> directories = directories w @ [inputsDirPath],
                 fileWrites = fileWrites w
                   @ map (\<lambda>t. (filePath t, generateInputTypeText t (options this))) types,
                 sourceFiles = sourceFiles w
                   @ [(pathResolve env [inputsDirPath, ''index.ts''],
                       map inputType.typeName types)],
                 timeReads = timeReads w + 2 \<rparr>)
         else (\<lparr> itemsGenerated = 0, timeElapsed = None, directWrittenFilePaths = None \<rparr>, w))"
  by (simp add: InputBlockGenerator_generate_def shouldGenerate_def Let_def foldl_writeInputType)

text \<open>
  Claim C6. When the block list of the document does not hold \<open>inputs\<close>,
  \<open>InputBlockGenerator.generate\<close> returns \<open>itemsGenerated = 0\<close> without written paths and
  leaves the world as it was: no directory, no file. When the list holds \<open>inputs\<close>, it
  makes the inputs directory, writes one file for each input type of the document, in
  their order, named after the type and holding the text of \<open>generateInputTypeText\<close>,
  creates the one barrel file \<open>index.ts\<close> with the names of all input types, and returns
  the number of input types and the paths written.
\<close>

theorem input_block_generate_effects:
  "(\<not> shouldGenerateBlock (dmmfDocument this) ''inputs'' \<longrightarrow>
      InputBlockGenerator_generate env this w
        = (\<lparr> itemsGenerated = 0, timeElapsed = None, directWrittenFilePaths = None \<rparr>, w))
   \<and> (shouldGenerateBlock (dmmfDocument this) ''inputs'' \<longrightarrow>
        (let types = inputTypes (schema (dmmfDocument this));
             inputsDirPath =
               pathResolve env [baseDirPath this, resolversFolderName env, inputsFolderName env];
             filePath = (\<lambda>t. pathResolve env [inputsDirPath, inputType.typeName t @ ''.ts'']);
             result = InputBlockGenerator_generate env this w
         in fileWrites (snd result)
              = fileWrites w
                @ map (\<lambda>t. (filePath t, generateInputTypeText t (options this))) types
            \<and> length (fileWrites (snd result)) = length (fileWrites w) + length types
            \<and> sourceFiles (snd result)
              = sourceFiles w
                @ [(pathResolve env [inputsDirPath, ''index.ts''], map inputType.typeName types)]
            \<and> directories (snd result) = directories w @ [inputsDirPath]
            \<and> itemsGenerated (fst result) = length types
            \<and> directWrittenFilePaths (fst result) = Some (map filePath types)))"
  by (simp add: InputBlockGenerator_generate_eq Let_def)

lemma example_paths:
  "posixJoin [''/out'', ''resolvers'', ''inputs''] = ''/out/resolvers/inputs''"
  "posixJoin [''/out/resolvers/inputs'', ''PostInput.ts''] = ''/out/resolvers/inputs/PostInput.ts''"
  "posixJoin [''/out/resolvers/inputs'', ''UserInput.ts''] = ''/out/resolvers/inputs/UserInput.ts''"
  "posixJoin [''/out/resolvers/inputs'', ''index.ts''] = ''/out/resolvers/inputs/index.ts''"
  by code_simp+

text \<open>A document with two input types, without and with the block \<open>inputs\<close>.\<close>

theorem input_block_generate_effects_witness:
  "InputBlockGenerator_generate exampleEnvironment (exampleGenerator [''enums'', ''models'']) emptyWorld
     = (\<lparr> itemsGenerated = 0, timeElapsed = None, directWrittenFilePaths = None \<rparr>, emptyWorld)
   \<and> map fst (fileWrites (snd (InputBlockGenerator_generate exampleEnvironment
         (exampleGenerator [''enums'', ''inputs'']) emptyWorld)))
       = [''/out/resolvers/inputs/PostInput.ts'', ''/out/resolvers/inputs/UserInput.ts'']
   \<and> sourceFiles (snd (InputBlockGenerator_generate exampleEnvironment
         (exampleGenerator [''enums'', ''inputs'']) emptyWorld))
       = [(''/out/resolvers/inputs/index.ts'', [''PostInput'', ''UserInput''])]
   \<and> itemsGenerated (fst (InputBlockGenerator_generate exampleEnvironment
         (exampleGenerator [''enums'', ''inputs'']) emptyWorld)) = 2"
  using input_block_generate_effects[of "exampleGenerator [''enums'', ''models'']"
          exampleEnvironment emptyWorld]
        input_block_generate_effects[of "exampleGenerator [''enums'', ''inputs'']"
          exampleEnvironment emptyWorld]
  by (simp add: exampleGenerator_def exampleEnvironment_def emptyWorld_def shouldGenerateBlock_def
      Let_def example_paths examplePost_def exampleUser_def)

lemma count_list_insort:
  "count_list (insort a xs) x = count_list (a # xs) x"
  by (induction xs) auto

lemma count_list_sort: "count_list (sort xs) x = count_list xs x"
  by (induction xs) (simp_all add: count_list_insort)

lemma spreadOfSet_setValues: "spreadOfSet xs (setValues xs)"
  by (simp add: spreadOfSet_def distinct_setValues set_setValues)

lemma sortedCopy_sort: "sortedCopy xs (sort xs)"
  by (simp add: sortedCopy_def list_all_iff count_list_sort)

lemma distinct_count_list_1: "distinct xs \<Longrightarrow> a \<in> set xs \<Longrightarrow> count_list xs a = 1"
  by (induction xs) auto

lemma count_list_1_distinct: "(\<And>a. a \<in> set xs \<Longrightarrow> count_list xs a = 1) \<Longrightarrow> distinct xs"
proof (induction xs)
  case Nil
  show ?case by simp
next
  case (Cons x xs)
  have "count_list (x # xs) x = 1" using Cons.prems[of x] by simp
  then have n: "x \<notin> set xs" by (simp add: count_list_0_iff)
  have "count_list xs a = 1" if "a \<in> set xs" for a
    using Cons.prems[of a] that n by (auto split: if_splits)
  then have "distinct xs" by (rule Cons.IH)
  with n show ?case by simp
qed

lemma sortedCopy_of_distinct:
  assumes "distinct xs" and "sortedCopy xs ys"
  shows "sorted ys \<and> distinct ys \<and> set ys = set xs"
proof -
  have c: "count_list ys x = count_list xs x" if "x \<in> set xs \<or> x \<in> set ys" for x
    using assms(2) that by (auto simp: sortedCopy_def list_all_iff)
  have s: "set ys = set xs"
  proof (intro equalityI subsetI)
    fix x assume "x \<in> set ys"
    then show "x \<in> set xs"
      using c[of x] count_list_0_iff[of ys x] count_list_0_iff[of xs x] by auto
  next
    fix x assume "x \<in> set xs"
    then show "x \<in> set ys"
      using c[of x] count_list_0_iff[of ys x] count_list_0_iff[of xs x] by auto
  qed
  have "count_list ys a = 1" if "a \<in> set ys" for a
  proof -
    have "count_list ys a = count_list xs a" using c that by blast
    also have "\<dots> = 1" using assms(1) that s by (simp add: distinct_count_list_1)
    finally show ?thesis .
  qed
  then have "distinct ys" by (rule count_list_1_distinct)
  with s assms(2) show ?thesis by (simp add: sortedCopy_def)
qed

lemma spread_sorted_unique:
  assumes "spreadOfSet xs spread" and "sortedCopy spread ys"
  shows "ys = sort (setValues xs)"
proof -
  from assms(1) have d: "distinct spread" and e: "set spread = set xs"
    by (simp_all add: spreadOfSet_def)
  from sortedCopy_of_distinct[OF d assms(2)] e
  have "sorted ys" "distinct ys" "set ys = set xs" by simp_all
  moreover have "sorted (sort (setValues xs))" "distinct (sort (setValues xs))"
      "set (sort (setValues xs)) = set xs"
    by (simp_all add: distinct_setValues set_setValues)
  ultimately show ?thesis by (intro sorted_distinct_set_unique) simp_all
qed

lemma importLines_importLinesWith:
  "importLines t opts = importLinesWith t opts (inputTypeImports t) (enumImports t)"
  by (simp add: importLines_def importLinesWith_def)

lemma generateInputTypeText_runs:
  "generateInputTypeTextRuns t opts (generateInputTypeText t opts)"
  unfolding generateInputTypeText_def generateInputTypeLines_def importLines_importLinesWith
    inputTypeImports_def enumImports_def
  by (rule generateInputTypeTextRuns.run)
     (rule spreadOfSet_setValues sortedCopy_sort)+

lemma generateInputTypeTextRuns_unique:
  assumes "generateInputTypeTextRuns t opts text"
  shows "text = generateInputTypeText t opts"
  using assms
proof (cases rule: generateInputTypeTextRuns.cases)
  case (run spreadInputTypes sortedInputTypes spreadEnums sortedEnums)
  have "sortedInputTypes = inputTypeImports t"
    using spread_sorted_unique[OF run(2) run(3)] by (simp add: inputTypeImports_def)
  moreover have "sortedEnums = enumImports t"
    using spread_sorted_unique[OF run(4) run(5)] by (simp add: enumImports_def)
  ultimately show ?thesis
    using run(1)
    by (simp add: generateInputTypeText_def generateInputTypeLines_def
        importLines_importLinesWith)
qed

text \<open>
  Claim C1. The text of \<open>generateInputTypeText\<close> does not depend on how the engine spreads
  a Set or sorts: the text that the function computes is one of its runs, and any two
  runs on the same input type and options return the same text, imports and fields in
  the same order. The files of the input block generator do not depend on the clock
  either: with other readings of \<open>performance.now()\<close> it makes the same directories, writes
  the same files with the same contents in the same order, creates the same barrel file
  and reports the same paths and count.
\<close>

theorem generation_deterministic:
  "generateInputTypeTextRuns t opts (generateInputTypeText t opts)
   \<and> (generateInputTypeTextRuns t opts emitted \<and> generateInputTypeTextRuns t opts emitted'
        \<longrightarrow> emitted = emitted')
   \<and> directories (snd (InputBlockGenerator_generate (env\<lparr> performanceNow := clock \<rparr>) this
          (w\<lparr> timeReads := n \<rparr>)))
       = directories (snd (InputBlockGenerator_generate env this w))
   \<and> fileWrites (snd (InputBlockGenerator_generate (env\<lparr> performanceNow := clock \<rparr>) this
          (w\<lparr> timeReads := n \<rparr>)))
       = fileWrites (snd (InputBlockGenerator_generate env this w))
   \<and> sourceFiles (snd (InputBlockGenerator_generate (env\<lparr> performanceNow := clock \<rparr>) this
          (w\<lparr> timeReads := n \<rparr>)))
       = sourceFiles (snd (InputBlockGenerator_generate env this w))
   \<and> itemsGenerated (fst (InputBlockGenerator_generate (env\<lparr> performanceNow := clock \<rparr>) this
          (w\<lparr> timeReads := n \<rparr>)))
       = itemsGenerated (fst (InputBlockGenerator_generate env this w))
   \<and> directWrittenFilePaths (fst (InputBlockGenerator_generate (env\<lparr> performanceNow := clock \<rparr>)
          this (w\<lparr> timeReads := n \<rparr>)))
       = directWrittenFilePaths (fst (InputBlockGenerator_generate env this w))"
proof -
  have unique: "emitted = emitted'"
    if "generateInputTypeTextRuns t opts emitted \<and> generateInputTypeTextRuns t opts emitted'"
    using that generateInputTypeTextRuns_unique[of t opts] by metis
  show ?thesis
    using generateInputTypeText_runs[of t opts] unique
    by (simp add: InputBlockGenerator_generate_eq Let_def)
qed

text \<open>A run whose Set is spread in another order than that of insertion, and two runs of
  the block generator whose clocks differ: the texts and the files agree, the elapsed
  times do not.\<close>

theorem generation_deterministic_witness:
  \<open>generateInputTypeTextRuns exampleUser exampleOptions
     (join [CHR 0x0A]
        (importLinesWith exampleUser exampleOptions
           [''CommentInput'', ''PostInput''] [''Color'']
         @ classHeaderLines exampleUser exampleOptions @ classBodyLines exampleUser @ [''}'', []]))
   \<and> generateInputTypeText exampleUser exampleOptions
     = join [CHR 0x0A]
        (importLinesWith exampleUser exampleOptions
           [''CommentInput'', ''PostInput''] [''Color'']
         @ classHeaderLines exampleUser exampleOptions @ classBodyLines exampleUser @ [''}'', []])
   \<and> fileWrites (snd (InputBlockGenerator_generate
       (exampleEnvironment\<lparr> performanceNow := (\<lambda>n. 1000 + 7 * real n) \<rparr>)
       (exampleGenerator [''inputs'']) (emptyWorld\<lparr> timeReads := 5 \<rparr>)))
     = fileWrites (snd (InputBlockGenerator_generate exampleEnvironment
         (exampleGenerator [''inputs'']) emptyWorld))
   \<and> timeElapsed (fst (InputBlockGenerator_generate
       (exampleEnvironment\<lparr> performanceNow := (\<lambda>n. 1000 + 7 * real n) \<rparr>)
       (exampleGenerator [''inputs'']) (emptyWorld\<lparr> timeReads := 5 \<rparr>))) = Some 7
   \<and> timeElapsed (fst (InputBlockGenerator_generate exampleEnvironment
         (exampleGenerator [''inputs'']) emptyWorld)) = Some 1\<close>
proof -
  let ?text = "join [CHR 0x0A]
        (importLinesWith exampleUser exampleOptions
           [''CommentInput'', ''PostInput''] [''Color'']
         @ classHeaderLines exampleUser exampleOptions @ classBodyLines exampleUser @ [''}'', []])"
  have r: "generateInputTypeTextRuns exampleUser exampleOptions ?text"
  proof (rule generateInputTypeTextRuns.run)
    show "spreadOfSet
       (filter (\<lambda>fieldType. fieldType \<noteq> inputType.typeName exampleUser)
         (map (\<lambda>field. typeInfo.type (selectedInputType field))
           (filter (\<lambda>field. location (selectedInputType field) = ''inputObjectTypes'')
             (fields' exampleUser))))
       [''CommentInput'', ''PostInput'']"
      by (auto simp: spreadOfSet_def exampleUser_def referenceField_def)
    show "sortedCopy [''CommentInput'', ''PostInput''] [''CommentInput'', ''PostInput'']"
      by (simp add: sortedCopy_def)
    show "spreadOfSet
       (map (\<lambda>fieldType. typeInfo.type fieldType)
         (filter (\<lambda>fieldType. location fieldType = ''enumTypes'')
           (map (\<lambda>field. selectedInputType field) (fields' exampleUser))))
       [''Color'']"
      by (auto simp: spreadOfSet_def exampleUser_def referenceField_def)
    show "sortedCopy [''Color''] [''Color'']"
      by (simp add: sortedCopy_def)
  qed
  have t: "timeElapsed (fst (InputBlockGenerator_generate
       (exampleEnvironment\<lparr> performanceNow := (\<lambda>n. 1000 + 7 * real n) \<rparr>)
       (exampleGenerator [''inputs'']) (emptyWorld\<lparr> timeReads := 5 \<rparr>))) = Some 7"
     "timeElapsed (fst (InputBlockGenerator_generate exampleEnvironment
         (exampleGenerator [''inputs'']) emptyWorld)) = Some 1"
    by (simp_all add: InputBlockGenerator_generate_eq Let_def exampleGenerator_def
        shouldGenerateBlock_def exampleEnvironment_def emptyWorld_def)
  from generation_deterministic[where t = exampleUser and opts = exampleOptions
      and emitted = "generateInputTypeText exampleUser exampleOptions" and emitted' = ?text
      and env = exampleEnvironment and clock = "\<lambda>n. 1000 + 7 * real n"
      and this = "exampleGenerator [''inputs'']" and w = emptyWorld and n = 5] r
  have "generateInputTypeText exampleUser exampleOptions = ?text"
    and "fileWrites (snd (InputBlockGenerator_generate
       (exampleEnvironment\<lparr> performanceNow := (\<lambda>n. 1000 + 7 * real n) \<rparr>)
       (exampleGenerator [''inputs'']) (emptyWorld\<lparr> timeReads := 5 \<rparr>)))
     = fileWrites (snd (InputBlockGenerator_generate exampleEnvironment
         (exampleGenerator [''inputs'']) emptyWorld))"
    by blast+
  with r t show ?thesis by (intro conjI)
qed

section \<open>Properties of the code generator\<close>

subsection \<open>The emission mode\<close>

lemma startsWith_iff: "startsWith s sub \<longleftrightarrow> (\<exists>rest. s = sub @ rest)"
  by (induction s sub rule: startsWith.induct) auto

lemma includes_iff: "includes' s sub \<longleftrightarrow> (\<exists>before after. s = before @ sub @ after)"
proof (induction s)
  case Nil
  show ?case by auto
next
  case (Cons x xs)
  show ?case
  proof
    assume "includes' (x # xs) sub"
    then consider "startsWith (x # xs) sub" | "includes' xs sub" by auto
    then show "\<exists>before after. x # xs = before @ sub @ after"
    proof cases
      case 1
      then obtain rest where "x # xs = sub @ rest" by (auto simp: startsWith_iff)
      then have "x # xs = [] @ sub @ rest" by simp
      then show ?thesis by blast
    next
      case 2
      then obtain b a where "xs = b @ sub @ a" using Cons.IH by blast
      then have "x # xs = (x # b) @ sub @ a" by simp
      then show ?thesis by blast
    qed
  next
    assume "\<exists>before after. x # xs = before @ sub @ after"
    then obtain b a where e: "x # xs = b @ sub @ a" by blast
    show "includes' (x # xs) sub"
    proof (cases b)
      case Nil
      with e have "startsWith (x # xs) sub" by (auto simp: startsWith_iff)
      then show ?thesis by simp
    next
      case (Cons y ys)
      with e have "xs = ys @ sub @ a" by simp
      then have "includes' xs sub" using Cons.IH by blast
      then show ?thesis by simp
    qed
  qed
qed

text \<open>
  Claim C10. With \<open>emitTranspiledCode\<close> left out, the code is transpiled exactly when the
  path of the output directory contains \<open>node_modules\<close>; with \<open>emitTranspiledCode\<close> set,
  its value decides, whatever the path.
\<close>

theorem emission_mode_default:
  "(emitTranspiledCode baseOptions = None \<longrightarrow>
      (emitTranspiledCode' baseOptions
         \<longleftrightarrow> (\<exists>before after. outputDirPath baseOptions = before @ ''node_modules'' @ after)))
   \<and> (emitTranspiledCode baseOptions = Some b \<longrightarrow> emitTranspiledCode' baseOptions = b)"
  by (simp add: emitTranspiledCode'_def includes_iff)

text \<open>Both paths with the option left out, and each path with the option set against
  it.\<close>

theorem emission_mode_default_witness:
  "emitTranspiledCode' \<lparr> outputDirPath = ''/app/node_modules/@generated/type-graphql'',
       emitTranspiledCode = None, formatGeneratedCode = None \<rparr>
   \<and> \<not> emitTranspiledCode' \<lparr> outputDirPath = ''/app/prisma/generated'',
       emitTranspiledCode = None, formatGeneratedCode = None \<rparr>
   \<and> \<not> emitTranspiledCode' \<lparr> outputDirPath = ''/app/node_modules/@generated/type-graphql'',
       emitTranspiledCode = Some False, formatGeneratedCode = None \<rparr>
   \<and> emitTranspiledCode' \<lparr> outputDirPath = ''/app/prisma/generated'',
       emitTranspiledCode = Some True, formatGeneratedCode = None \<rparr>"
proof -
  have a: "''/app/node_modules/@generated/type-graphql''
             = ''/app/'' @ ''node_modules'' @ ''/@generated/type-graphql''" by simp
  have b: "\<not> includes' ''/app/prisma/generated'' ''node_modules''" by code_simp
  show ?thesis
  proof -
    have c: "includes' ''/app/node_modules/@generated/type-graphql'' ''node_modules''"
      unfolding includes_iff using a by blast
    show ?thesis
      using emission_mode_default[of "\<lparr> outputDirPath = ''/app/node_modules/@generated/type-graphql'',
         emitTranspiledCode = None, formatGeneratedCode = None \<rparr>"]
        emission_mode_default[of "\<lparr> outputDirPath = ''/app/prisma/generated'',
         emitTranspiledCode = None, formatGeneratedCode = None \<rparr>"]
        emission_mode_default[of "\<lparr> outputDirPath = ''/app/node_modules/@generated/type-graphql'',
         emitTranspiledCode = Some False, formatGeneratedCode = None \<rparr>" False]
        emission_mode_default[of "\<lparr> outputDirPath = ''/app/prisma/generated'',
         emitTranspiledCode = Some True, formatGeneratedCode = None \<rparr>" True]
        b c
      unfolding includes_iff[symmetric]
      by (simp del: includes'.simps)
  qed
qed

subsection \<open>The transpile batches\<close>

lemma jsWorkerCount_bounds:
  "1 \<le> jsWorkerCount c" "jsWorkerCount c \<le> 8" "int (jsWorkerCount c) \<le> max 1 (int c - 2)"
  by (simp_all add: jsWorkerCount_def)

lemma batchLoop_done: "length fs \<le> i \<Longrightarrow> batchLoop fs s i acc = Some acc"
  by (subst batchLoop.simps) simp

lemma batchLoop_step:
  "i < length fs \<Longrightarrow> batchLoop fs s i acc = batchLoop fs s (i + s) (acc @ [take s (drop i fs)])"
  by (subst batchLoop.simps) simp

lemma batchLoop_batches:
  assumes "0 < s"
  shows "\<exists>bs. batchLoop fs s i acc = Some (acc @ bs)
           \<and> concat bs = drop i fs \<and> [] \<notin> set bs
           \<and> (length fs \<le> i \<longrightarrow> bs = [])
           \<and> (i < length fs \<longrightarrow> bs \<noteq> [] \<and> (length bs - 1) * s < length fs - i)"
proof (induction "length fs - i" arbitrary: i acc rule: less_induct)
  case less
  show ?case
  proof (cases "i < length fs")
    case False
    then show ?thesis by (simp add: batchLoop_done)
  next
    case True
    let ?b = "take s (drop i fs)"
    have "length fs - (i + s) < length fs - i" using True assms by simp
    from less[OF this, of "acc @ [?b]"]
    obtain bs where bs: "batchLoop fs s (i + s) (acc @ [?b]) = Some ((acc @ [?b]) @ bs)"
        "concat bs = drop (i + s) fs" "[] \<notin> set bs"
        "length fs \<le> i + s \<longrightarrow> bs = []"
        "i + s < length fs \<longrightarrow> bs \<noteq> [] \<and> (length bs - 1) * s < length fs - (i + s)"
      by blast
    have b: "?b \<noteq> []" using True assms by simp
    have c: "concat (?b # bs) = drop i fs"
      using bs(2) by (simp add: add.commute[of i s] drop_drop[symmetric] del: drop_drop)
    have n: "(length (?b # bs) - 1) * s < length fs - i"
    proof (cases "i + s < length fs")
      case True
      with bs(5) have "bs \<noteq> []" and l: "(length bs - 1) * s < length fs - (i + s)" by auto
      then obtain k where k: "length bs = Suc k" by (cases bs) auto
      with l have "k * s < length fs - (i + s)" by simp
      with True k show ?thesis by simp
    next
      case False
      with bs(4) have "bs = []" by simp
      with True show ?thesis by simp
    qed
    have "batchLoop fs s i acc = Some (acc @ (?b # bs))"
      using bs(1) True by (simp add: batchLoop_step)
    with b c n bs(3) True show ?thesis
      by (intro exI[of _ "?b # bs"]) auto
  qed
qed

lemma batchSize_covers:
  "length fs \<le> nat \<lceil>real (length fs) / real (jsWorkerCount c)\<rceil> * jsWorkerCount c"
proof -
  let ?w = "jsWorkerCount c" and ?n = "length fs"
  define k where "k = \<lceil>real ?n / real ?w\<rceil>"
  have w: "0 < real ?w" using jsWorkerCount_bounds(1)[of c] by simp
  have x: "real ?n / real ?w \<le> of_int k" unfolding k_def by (rule le_of_int_ceiling)
  have k0: "0 \<le> k"
  proof -
    have "(0::real) \<le> real ?n / real ?w" by simp
    then have "\<lceil>0::real\<rceil> \<le> \<lceil>real ?n / real ?w\<rceil>" by (rule ceiling_mono)
    then show ?thesis by (simp add: k_def)
  qed
  have "real ?n = (real ?n / real ?w) * real ?w" using w by simp
  also have "\<dots> \<le> of_int k * real ?w"
    by (intro mult_right_mono) (use x w in simp_all)
  also have "of_int k * real ?w = real (nat k * ?w)" using k0 by simp
  finally have "real ?n \<le> real (nat k * ?w)" .
  then have "?n \<le> nat k * ?w" by (simp only: of_nat_le_iff)
  then show ?thesis by (simp only: k_def)
qed

lemma batchSize_pos:
  "fs \<noteq> [] \<Longrightarrow> 0 < nat \<lceil>real (length fs) / real (jsWorkerCount c)\<rceil>"
proof -
  assume "fs \<noteq> []"
  then have "0 < real (length fs) / real (jsWorkerCount c)"
    using jsWorkerCount_bounds(1)[of c] by simp
  then show ?thesis by simp
qed

lemma jsBatchesOf_batches:
  "\<exists>jsBatches. jsBatchesOf c files = Some jsBatches
     \<and> length jsBatches \<le> jsWorkerCount c
     \<and> concat jsBatches = files \<and> [] \<notin> set jsBatches
     \<and> (files \<noteq> [] \<longrightarrow> 1 \<le> length jsBatches)"
proof (cases "files = []")
  case True
  then show ?thesis by (simp add: jsBatchesOf_def batchLoop_done)
next
  case False
  let ?s = "nat \<lceil>real (length files) / real (jsWorkerCount c)\<rceil>"
  have s: "0 < ?s" using False by (rule batchSize_pos)
  from batchLoop_batches[OF s, of files 0 "[]"] False
  obtain bs where bs: "batchLoop files ?s 0 [] = Some bs" "concat bs = files" "[] \<notin> set bs"
      "bs \<noteq> []" "(length bs - 1) * ?s < length files"
    by auto
  have c: "length files \<le> ?s * jsWorkerCount c" by (rule batchSize_covers)
  have "(length bs - 1) * ?s < ?s * jsWorkerCount c" using bs(5) c by (rule less_le_trans)
  then have "(length bs - 1) * ?s < jsWorkerCount c * ?s" by (simp only: mult.commute)
  then have "length bs - 1 < jsWorkerCount c" by (simp only: mult_less_cancel2)
  then have "length bs \<le> jsWorkerCount c" by simp
  moreover have "1 \<le> length bs" using bs(4) by (cases bs) auto
  ultimately show ?thesis using bs by (simp add: jsBatchesOf_def)
qed

lemma createSourceFile_nonempty: "createSourceFile project filePath \<noteq> []"
  by (auto simp: createSourceFile_def)

lemma getSourceFiles_nonempty: "project \<noteq> [] \<Longrightarrow> getSourceFiles env project \<noteq> []"
  unfolding getSourceFiles_def by (metis length_sort length_0_conv)

lemma allFilePaths_nonempty: "allFilePaths env dir additional \<noteq> []"
  by (simp add: allFilePaths_def sourceFilePaths_def withAuxiliaryFiles_def Let_def
      createSourceFile_nonempty getSourceFiles_nonempty)

text \<open>
  Claim C9. The loop that cuts the file list of the emission stage into batches ends. The
  file list holds at least the four auxiliary files that \<open>generate\<close> creates before the
  emission, so there is at least one batch; there are at most eight batches and at most
  \<open>max(1, cpus - 2)\<close>; no batch is empty; and the batches, one after the other, are the
  file list, so that every entry of the list is in exactly one batch.
\<close>

theorem transpile_batches_partition:
  "(\<exists>jsBatches. jsBatchesOf c files = Some jsBatches
       \<and> length jsBatches \<le> 8
       \<and> int (length jsBatches) \<le> max 1 (int c - 2)
       \<and> concat jsBatches = files \<and> [] \<notin> set jsBatches
       \<and> (files \<noteq> [] \<longrightarrow> 1 \<le> length jsBatches))
   \<and> allFilePaths env dir additional \<noteq> []
   \<and> (\<exists>jsBatches. jsBatchesOf c (allFilePaths env dir additional) = Some jsBatches
         \<and> 1 \<le> length jsBatches)"
proof -
  have general: "\<exists>jsBatches. jsBatchesOf c fs = Some jsBatches
       \<and> length jsBatches \<le> 8
       \<and> int (length jsBatches) \<le> max 1 (int c - 2)
       \<and> concat jsBatches = fs \<and> [] \<notin> set jsBatches
       \<and> (fs \<noteq> [] \<longrightarrow> 1 \<le> length jsBatches)" for fs
  proof -
    from jsBatchesOf_batches[of c fs]
    obtain bs where bs: "jsBatchesOf c fs = Some bs" "length bs \<le> jsWorkerCount c"
        "concat bs = fs" "[] \<notin> set bs" "fs \<noteq> [] \<longrightarrow> 1 \<le> length bs"
      by blast
    have "length bs \<le> 8" using bs(2) jsWorkerCount_bounds(2)[of c] by simp
    moreover have "int (length bs) \<le> max 1 (int c - 2)"
      using bs(2) jsWorkerCount_bounds(3)[of c] by linarith
    ultimately show ?thesis using bs by blast
  qed
  have nonempty: "allFilePaths env dir additional \<noteq> []" by (rule allFilePaths_nonempty)
  from general[of "allFilePaths env dir additional"] nonempty
  have "\<exists>jsBatches. jsBatchesOf c (allFilePaths env dir additional) = Some jsBatches
         \<and> 1 \<le> length jsBatches"
    by blast
  with general[of files] nonempty show ?thesis by blast
qed

text \<open>Seven files on a machine with four processors: two batches of four and three
  files.\<close>

theorem transpile_batches_partition_witness:
  "allFilePaths exampleRun ''/out''
       [''/out/resolvers/inputs/PostInput.ts'', ''/out/resolvers/inputs/UserInput.ts'']
     = [''/out/enhance.ts'', ''/out/helpers.ts'', ''/out/index.ts'', ''/out/scalars.ts'',
        ''/out/enums/Color.ts'', ''/out/resolvers/inputs/PostInput.ts'',
        ''/out/resolvers/inputs/UserInput.ts'']
   \<and> jsBatchesOf (cpus exampleRun)
         (allFilePaths exampleRun ''/out''
           [''/out/resolvers/inputs/PostInput.ts'', ''/out/resolvers/inputs/UserInput.ts''])
     = Some [[''/out/enhance.ts'', ''/out/helpers.ts'', ''/out/index.ts'',
              ''/out/scalars.ts''],
             [''/out/enums/Color.ts'', ''/out/resolvers/inputs/PostInput.ts'',
              ''/out/resolvers/inputs/UserInput.ts'']]"
proof -
  have f: "allFilePaths exampleRun ''/out''
       [''/out/resolvers/inputs/PostInput.ts'', ''/out/resolvers/inputs/UserInput.ts'']
     = [''/out/enhance.ts'', ''/out/helpers.ts'', ''/out/index.ts'', ''/out/scalars.ts'',
        ''/out/enums/Color.ts'', ''/out/resolvers/inputs/PostInput.ts'',
        ''/out/resolvers/inputs/UserInput.ts'']"
    by (simp add: allFilePaths_def sourceFilePaths_def getSourceFiles_def withAuxiliaryFiles_def
        createSourceFile_def exampleRun_def)
  have c: "cpus exampleRun = 4" by (simp add: exampleRun_def)
  show ?thesis
    using transpile_batches_partition[of "cpus exampleRun"
        "allFilePaths exampleRun ''/out''
          [''/out/resolvers/inputs/PostInput.ts'', ''/out/resolvers/inputs/UserInput.ts'']"
        exampleRun "''/out''"
        "[''/out/resolvers/inputs/PostInput.ts'', ''/out/resolvers/inputs/UserInput.ts'']"]
    unfolding f c
    by (simp add: jsBatchesOf_def jsWorkerCount_def batchLoop.simps)
qed

subsection \<open>Failing workers\<close>

lemma firstRejection_None:
  "firstRejection best ps = None \<longleftrightarrow> best = None \<and> (\<forall>p \<in> set ps. \<not> isl (fst p))"
  by (induction best ps rule: firstRejection.induct) (auto split: option.splits)

lemma firstRejection_Some:
  "firstRejection best ps = Some (t, reason) \<Longrightarrow> best = Some (t, reason) \<or> (Inl reason, t) \<in> set ps"
  by (induction best ps rule: firstRejection.induct) (auto split: option.splits if_splits)

lemma promiseAll_resolves: "promiseAll ps = Inr () \<longleftrightarrow> (\<forall>p \<in> set ps. \<not> isl (fst p))"
  using firstRejection_None[of None ps]
  by (auto simp: promiseAll_def split: option.splits)

lemma promiseAll_rejects: "promiseAll ps = Inl reason \<Longrightarrow> \<exists>t. (Inl reason, t) \<in> set ps"
  using firstRejection_Some[of None ps]
  by (auto simp: promiseAll_def split: option.splits)

lemma workerPromise_resolves: "workerPromise kind result = Inr () \<longleftrightarrow> result = Exited 0"
  by (auto simp: workerPromise_def split: workerOutcome.splits)

lemma workerPromise_isl: "isl (workerPromise kind result) \<longleftrightarrow> result \<noteq> Exited 0"
  by (auto simp: workerPromise_def split: workerOutcome.splits)

lemma fastEmitTranspiledCode_saved:
  assumes "projectSave env = None"
      and "jsBatchesOf (cpus env) (sources @ additional) = Some jsBatches"
  shows "\<exists>r'. fastEmitTranspiledCode env sources additional r
           = Some (case promiseAll
                       (map (\<lambda>i. (workerPromise ''JS'' (outcome (jsWorker env i)),
                                   settledAt (jsWorker env i)))
                          [0..<length jsBatches]) of
                     Inl reason \<Rightarrow> Inl (''JS emission failed: '' @ reason)
                   | Inr v \<Rightarrow>
                       (case workerPromise ''DTS'' (dtsWorker env) of
                          Inl reason \<Rightarrow> Inl (''DTS emission failed: '' @ reason)
                        | Inr v \<Rightarrow> Inr ()), r')"
  using assms
  by (auto simp: fastEmitTranspiledCode_def Let_def split: sum.splits)

lemma fastEmitTranspiledCode_result:
  "map_option fst (fastEmitTranspiledCode env sources additional r)
     = map_option fst (fastEmitTranspiledCode env sources additional r')"
  by (simp add: fastEmitTranspiledCode_def Let_def split: option.splits sum.splits)

lemma foldl_blockCallback:
  "fst (foldl blockCallback (paths, r) blocks)
     = paths @ concat (map (\<lambda>b. case generationMetrics.directWrittenFilePaths (snd b) of
                                   None \<Rightarrow> [] | Some written \<Rightarrow> written) blocks)"
proof (induction blocks arbitrary: paths r)
  case Nil
  show ?case by simp
next
  case (Cons b blocks)
  obtain paths' r' where s: "blockCallback (paths, r) b = (paths', r')" by fastforce
  then have p: "paths' = paths @ (case generationMetrics.directWrittenFilePaths (snd b) of
                                   None \<Rightarrow> [] | Some written \<Rightarrow> written)"
    by (cases b) (auto simp: blockCallback_def Let_def split: option.splits)
  show ?case using Cons.IH[of paths' r'] by (simp add: s p)
qed

lemma generate_compiled:
  assumes "prismaPackageCheck env = None" "documentCreation env = None"
      and "blockGeneration env = Inr blocks" "auxiliaryFiles env = None"
      and "emitTranspiledCode' baseOptions"
  shows "map_option fst (CodeGenerator_generate env baseOptions)
     = map_option fst (fastEmitTranspiledCode env
         (sourceFilePaths env (outputDirPath baseOptions))
         (concat (map (\<lambda>b. case generationMetrics.directWrittenFilePaths (snd b) of
                                None \<Rightarrow> [] | Some written \<Rightarrow> written) blocks)) r)"
proof -
  let ?r1 = "emitMetric ''dmmf-document-creation'' None
               (log' ''Transforming dmmfDocument...'' \<lparr> logs = [], metrics = [] \<rparr>)"
  obtain direct r2 where f: "foldl blockCallback ([], ?r1) blocks = (direct, r2)" by fastforce
  have d: "direct = concat (map (\<lambda>b. case generationMetrics.directWrittenFilePaths (snd b) of
                                None \<Rightarrow> [] | Some written \<Rightarrow> written) blocks)"
    using foldl_blockCallback[of "[]" ?r1 blocks] f by simp
  let ?r3 = "log' ''Transpiling generated code'' (log' ''Emitting final code''
     (emitMetric ''auxiliary-files'' None (log' ''Generate auxiliary files'' r2)))"
  have "map_option fst (CodeGenerator_generate env baseOptions)
     = map_option fst (fastEmitTranspiledCode env
         (sourceFilePaths env (outputDirPath baseOptions))
         direct ?r3)"
    using assms f
    by (simp add: CodeGenerator_generate_def emitFinalCode_def Let_def
        split: option.splits sum.splits prod.splits)
  then show ?thesis
    unfolding d using fastEmitTranspiledCode_result by metis
qed

text \<open>
  Claim C8, as stated, fails: the error of a failed transpile batch does not tell which
  batch failed. Of two batches, the first fails in one run and the second in the other;
  the error is the same.
\<close>

theorem emission_error_counterexample:
  "jsBatchesOf 4 ([''/out/a.ts'', ''/out/b.ts''] @ []) = Some [[''/out/a.ts''], [''/out/b.ts'']]
   \<and> map (\<lambda>i. outcome (failingBatch 0 i)) [0, 1] = [Exited 1, Exited 0]
   \<and> map (\<lambda>i. outcome (failingBatch 1 i)) [0, 1] = [Exited 0, Exited 1]
   \<and> map_option fst (fastEmitTranspiledCode (exampleRun\<lparr> jsWorker := failingBatch 0 \<rparr>)
          [''/out/a.ts'', ''/out/b.ts''] [] \<lparr> logs = [], metrics = [] \<rparr>)
       = Some (Inl ''JS emission failed: Error: JS worker exited with code 1'')
   \<and> map_option fst (fastEmitTranspiledCode (exampleRun\<lparr> jsWorker := failingBatch 1 \<rparr>)
          [''/out/a.ts'', ''/out/b.ts''] [] \<lparr> logs = [], metrics = [] \<rparr>)
       = Some (Inl ''JS emission failed: Error: JS worker exited with code 1'')"
proof -
  have b: "jsBatchesOf 4 [''/out/a.ts'', ''/out/b.ts''] = Some [[''/out/a.ts''], [''/out/b.ts'']]"
    by (simp add: jsBatchesOf_def jsWorkerCount_def batchLoop.simps)
  have t: "intText 1 = ''1''" by code_simp
  have u: "[0..<2] = [0, 1]" by code_simp
  show ?thesis
    by (simp add: b u fastEmitTranspiledCode_def exampleRun_def failingBatch_def Let_def
        promiseAll_def workerPromise_def t)
qed

text \<open>
  Claim C8, amended. Once the projects are saved, \<open>fastEmitTranspiledCode\<close> returns, and it
  succeeds exactly when every transpile worker and the declaration worker exit with code
  0. When a transpile worker fails, the error is \<open>JS emission failed:\<close> followed by the
  reason of one of the failed workers (its error, or its exit code); when only the
  declaration worker fails, it is \<open>DTS emission failed:\<close> followed by its reason. The
  error names the stage and the reason, not the batch. In compiled mode \<open>generate\<close> ends
  with this error as soon as the earlier stages are through.
\<close>

theorem emission_fails_with_stage:
  assumes "projectSave env = None"
  shows "\<exists>jsBatches result r'.
      jsBatchesOf (cpus env) (sources @ additional) = Some jsBatches
    \<and> fastEmitTranspiledCode env sources additional r = Some (result, r')
    \<and> (result = Inr () \<longleftrightarrow>
          (\<forall>i<length jsBatches. outcome (jsWorker env i) = Exited 0) \<and> dtsWorker env = Exited 0)
    \<and> ((\<exists>i<length jsBatches. outcome (jsWorker env i) \<noteq> Exited 0) \<longrightarrow>
          (\<exists>i<length jsBatches. \<exists>reason.
              workerPromise ''JS'' (outcome (jsWorker env i)) = Inl reason
            \<and> result = Inl (''JS emission failed: '' @ reason)))
    \<and> ((\<forall>i<length jsBatches. outcome (jsWorker env i) = Exited 0) \<longrightarrow>
          (\<forall>reason. workerPromise ''DTS'' (dtsWorker env) = Inl reason \<longrightarrow>
              result = Inl (''DTS emission failed: '' @ reason)))
    \<and> (prismaPackageCheck env = None \<and> documentCreation env = None
         \<and> blockGeneration env = Inr blocks \<and> auxiliaryFiles env = None
         \<and> emitTranspiledCode' baseOptions
         \<and> sources = sourceFilePaths env (outputDirPath baseOptions)
         \<and> additional
               = concat (map (\<lambda>b. case generationMetrics.directWrittenFilePaths (snd b) of
                                       None \<Rightarrow> [] | Some written \<Rightarrow> written) blocks)
        \<longrightarrow> map_option fst (CodeGenerator_generate env baseOptions) = Some result)"
proof -
  from jsBatchesOf_batches[of "cpus env" "sources @ additional"]
  obtain jsBatches where b: "jsBatchesOf (cpus env) (sources @ additional) = Some jsBatches"
    by blast
  let ?ps = "map (\<lambda>i. (workerPromise ''JS'' (outcome (jsWorker env i)),
                       settledAt (jsWorker env i))) [0..<length jsBatches]"
  let ?result = "case promiseAll ?ps of
                     Inl reason \<Rightarrow> Inl (''JS emission failed: '' @ reason)
                   | Inr v \<Rightarrow>
                       (case workerPromise ''DTS'' (dtsWorker env) of
                          Inl reason \<Rightarrow> Inl (''DTS emission failed: '' @ reason)
                        | Inr v \<Rightarrow> Inr ())"
  from fastEmitTranspiledCode_saved[OF assms b, of r]
  obtain r' where f: "fastEmitTranspiledCode env sources additional r = Some (?result, r')"
    by blast
  have js: "promiseAll ?ps = Inr () \<longleftrightarrow> (\<forall>i<length jsBatches. outcome (jsWorker env i) = Exited 0)"
    by (auto simp: promiseAll_resolves workerPromise_isl)
  have ok: "?result = Inr () \<longleftrightarrow>
          (\<forall>i<length jsBatches. outcome (jsWorker env i) = Exited 0) \<and> dtsWorker env = Exited 0"
    using js workerPromise_resolves[of "''DTS''" "dtsWorker env"]
    by (auto split: sum.splits)
  have jsfail: "\<exists>i<length jsBatches. \<exists>reason.
              workerPromise ''JS'' (outcome (jsWorker env i)) = Inl reason
            \<and> ?result = Inl (''JS emission failed: '' @ reason)"
    if "\<exists>i<length jsBatches. outcome (jsWorker env i) \<noteq> Exited 0"
  proof -
    from that js have "promiseAll ?ps \<noteq> Inr ()" by blast
    then obtain reason where p: "promiseAll ?ps = Inl reason" by (cases "promiseAll ?ps") auto
    from promiseAll_rejects[OF p] obtain i where
      "i < length jsBatches" "workerPromise ''JS'' (outcome (jsWorker env i)) = Inl reason"
      by auto
    with p show ?thesis by auto
  qed
  have dtsfail: "?result = Inl (''DTS emission failed: '' @ reason)"
    if "\<forall>i<length jsBatches. outcome (jsWorker env i) = Exited 0"
       "workerPromise ''DTS'' (dtsWorker env) = Inl reason" for reason
    using that js by (auto split: sum.splits)
  have run: "map_option fst (CodeGenerator_generate env baseOptions) = Some ?result"
    if "prismaPackageCheck env = None \<and> documentCreation env = None
         \<and> blockGeneration env = Inr blocks \<and> auxiliaryFiles env = None
         \<and> emitTranspiledCode' baseOptions
         \<and> sources = sourceFilePaths env (outputDirPath baseOptions)
         \<and> additional
               = concat (map (\<lambda>b. case generationMetrics.directWrittenFilePaths (snd b) of
                                       None \<Rightarrow> [] | Some written \<Rightarrow> written) blocks)"
    using that f generate_compiled[of env blocks baseOptions r] by simp
  show ?thesis
    using b f ok jsfail dtsfail run by blast
qed

text \<open>Three runs in compiled mode: the second of two transpile workers exits with code 1;
  the declaration worker emits an error; every worker exits with code 0.\<close>

theorem emission_fails_with_stage_witness:
  "projectSave exampleRun = None
   \<and> jsBatchesOf 4
        [''/out/enhance.ts'', ''/out/helpers.ts'', ''/out/index.ts'', ''/out/scalars.ts'',
         ''/out/enums/Color.ts'', ''/out/resolvers/inputs/PostInput.ts'',
         ''/out/resolvers/inputs/UserInput.ts'']
       = Some [[''/out/enhance.ts'', ''/out/helpers.ts'', ''/out/index.ts'',
                ''/out/scalars.ts''],
               [''/out/enums/Color.ts'', ''/out/resolvers/inputs/PostInput.ts'',
                ''/out/resolvers/inputs/UserInput.ts'']]
   \<and> outcome (failingBatch 1 1) = Exited 1
   \<and> map_option fst (CodeGenerator_generate (exampleRun\<lparr> jsWorker := failingBatch 1 \<rparr>)
         \<lparr> outputDirPath = ''/out'', emitTranspiledCode = Some True, formatGeneratedCode = None \<rparr>)
       = Some (Inl ''JS emission failed: Error: JS worker exited with code 1'')
   \<and> map_option fst (CodeGenerator_generate (exampleRun\<lparr> dtsWorker := Errored ''Error: out of memory'' \<rparr>)
         \<lparr> outputDirPath = ''/out'', emitTranspiledCode = Some True, formatGeneratedCode = None \<rparr>)
       = Some (Inl ''DTS emission failed: Error: out of memory'')
   \<and> map_option fst (CodeGenerator_generate exampleRun
         \<lparr> outputDirPath = ''/out'', emitTranspiledCode = Some True, formatGeneratedCode = None \<rparr>)
       = Some (Inr ())"
proof -
  let ?opts = "\<lparr> outputDirPath = ''/out'', emitTranspiledCode = Some True,
                 formatGeneratedCode = None \<rparr>"
  let ?sources = "[''/out/enhance.ts'', ''/out/helpers.ts'', ''/out/index.ts'',
                   ''/out/scalars.ts'', ''/out/enums/Color.ts'']"
  let ?direct = "[''/out/resolvers/inputs/PostInput.ts'', ''/out/resolvers/inputs/UserInput.ts'']"
  let ?blocks = "[(''enums'',
               \<lparr> itemsGenerated = 1, timeElapsed = Some 2, directWrittenFilePaths = None \<rparr>),
              (''inputs'',
               \<lparr> itemsGenerated = 2, timeElapsed = Some 3,
                 directWrittenFilePaths =
                   Some [''/out/resolvers/inputs/PostInput.ts'',
                         ''/out/resolvers/inputs/UserInput.ts''] \<rparr>)]"
  let ?r = "\<lparr> logs = [], metrics = [] \<rparr>"
  have b: "jsBatchesOf 4 (?sources @ ?direct)
       = Some [[''/out/enhance.ts'', ''/out/helpers.ts'', ''/out/index.ts'',
                ''/out/scalars.ts''],
               [''/out/enums/Color.ts'', ''/out/resolvers/inputs/PostInput.ts'',
                ''/out/resolvers/inputs/UserInput.ts'']]"
    by (simp add: jsBatchesOf_def jsWorkerCount_def batchLoop.simps)
  have t: "intText 1 = ''1''" by code_simp
  have u: "[0..<2] = [0, 1]" by code_simp
  have f: "map_option fst (fastEmitTranspiledCode (exampleRun\<lparr> jsWorker := failingBatch 1 \<rparr>)
             ?sources ?direct ?r)
       = Some (Inl ''JS emission failed: Error: JS worker exited with code 1'')"
     "map_option fst (fastEmitTranspiledCode (exampleRun\<lparr> dtsWorker := Errored ''Error: out of memory'' \<rparr>)
             ?sources ?direct ?r)
       = Some (Inl ''DTS emission failed: Error: out of memory'')"
     "map_option fst (fastEmitTranspiledCode exampleRun ?sources ?direct ?r) = Some (Inr ())"
    using b by (simp_all add: u fastEmitTranspiledCode_def exampleRun_def failingBatch_def Let_def
        promiseAll_def workerPromise_def t)
  have s: "projectSave (exampleRun\<lparr> jsWorker := failingBatch 1 \<rparr>) = None"
     "projectSave (exampleRun\<lparr> dtsWorker := Errored ''Error: out of memory'' \<rparr>) = None"
     "projectSave exampleRun = None"
    by (simp_all add: exampleRun_def)
  have h: "prismaPackageCheck env = None \<and> documentCreation env = None
         \<and> blockGeneration env = Inr ?blocks \<and> auxiliaryFiles env = None
         \<and> emitTranspiledCode' ?opts
         \<and> ?sources = sourceFilePaths env (outputDirPath ?opts)
         \<and> ?direct
               = concat (map (\<lambda>b. case generationMetrics.directWrittenFilePaths (snd b) of
                                       None \<Rightarrow> [] | Some written \<Rightarrow> written) ?blocks)"
    if "env = exampleRun\<lparr> jsWorker := failingBatch 1 \<rparr>
        \<or> env = exampleRun\<lparr> dtsWorker := Errored ''Error: out of memory'' \<rparr>
        \<or> env = exampleRun" for env
    using that
    by (auto simp: exampleRun_def emitTranspiledCode'_def sourceFilePaths_def getSourceFiles_def
        withAuxiliaryFiles_def createSourceFile_def)
  have g: "map_option fst (CodeGenerator_generate env ?opts)
             = map_option fst (fastEmitTranspiledCode env ?sources ?direct ?r)"
    if p: "projectSave env = None"
      and e: "env = exampleRun\<lparr> jsWorker := failingBatch 1 \<rparr>
        \<or> env = exampleRun\<lparr> dtsWorker := Errored ''Error: out of memory'' \<rparr>
        \<or> env = exampleRun" for env
  proof -
    from emission_fails_with_stage[OF p, of ?sources ?direct ?r ?blocks ?opts] h[OF e]
    obtain result where "map_option fst (fastEmitTranspiledCode env ?sources ?direct ?r) = Some result"
        "map_option fst (CodeGenerator_generate env ?opts) = Some result"
      by auto
    then show ?thesis by (simp only:)
  qed
  have o: "outcome (failingBatch 1 1) = Exited 1" by (simp add: failingBatch_def)
  note r = f[folded g[OF s(1) disjI1[OF refl]] g[OF s(2) disjI2[OF disjI1[OF refl]]]
                   g[OF s(3) disjI2[OF disjI2[OF refl]]]]
  from s(3) b o r show ?thesis by (simp only: append.simps simp_thms)
qed

subsection \<open>A failing formatter\<close>

lemma fastEmitTranspiledCode_execa:
  "fastEmitTranspiledCode (env\<lparr> execa := x \<rparr>) sources additional r
     = fastEmitTranspiledCode env sources additional r"
  by (simp add: fastEmitTranspiledCode_def Let_def split: option.splits sum.splits)

lemma emitFinalCode_execa:
  "emitFinalCode (env\<lparr> execa := x \<rparr>) transpile dir direct r
     = emitFinalCode env transpile dir direct r"
  by (simp add: emitFinalCode_def fastEmitTranspiledCode_execa sourceFilePaths_def
      getSourceFiles_def Let_def split: option.splits)

lemma CodeGenerator_generate_execa:
  "map_option fst (CodeGenerator_generate (env\<lparr> execa := x \<rparr>) baseOptions)
     = map_option fst (CodeGenerator_generate env baseOptions)"
  by (simp add: CodeGenerator_generate_def Let_def emitFinalCode_execa
      split: option.splits sum.splits prod.splits)

lemma formatGeneratedCode_fails:
  "execa env (formatCommand env f dir) dir = Some message \<Longrightarrow>
   formatGeneratedCode' env (Some f) dir r
     = log' (''Warning: Code formatting failed: '' @ message)
         (log' (''Formatting generated code with '' @ formatterText f) r)"
  by (simp add: formatGeneratedCode'_def tryFormat_def Let_def)

lemma CodeGenerator_generate_success:
  "map_option fst (CodeGenerator_generate env baseOptions) = Some (Inr ()) \<Longrightarrow>
   \<exists>r. CodeGenerator_generate env baseOptions
     = Some (Inr (),
         emitMetric ''total-generation'' None
           (emitMetric ''code-emission'' None
             (formatGeneratedCode' env
                (resolveFormatGeneratedCodeOption (formatGeneratedCode baseOptions))
                (outputDirPath baseOptions) r)))"
  by (auto simp: CodeGenerator_generate_def Let_def
      split: option.splits sum.splits prod.splits)

text \<open>
  Claim C7. With a formatter configured, whether the formatter's subprocess fails or not
  has no effect on how \<open>generate\<close> ends: the run ends as the run with a succeeding
  formatter does, with the same error or with success. When the run reaches the
  formatting step and the subprocess fails, the message \<open>Warning: Code formatting failed:\<close>
  with the message of the error is handed to the logging callback, the run succeeds, and
  the two closing metrics are emitted as in every successful run.
\<close>

theorem formatter_failure_not_fatal:
  assumes "resolveFormatGeneratedCodeOption (formatGeneratedCode baseOptions) = Some f"
      and "execa env (formatCommand env f (outputDirPath baseOptions)) (outputDirPath baseOptions)
             = Some message"
  shows "map_option fst (CodeGenerator_generate env baseOptions)
           = map_option fst
               (CodeGenerator_generate (env\<lparr> execa := (\<lambda>command cwd. None) \<rparr>) baseOptions)
       \<and> (map_option fst
             (CodeGenerator_generate (env\<lparr> execa := (\<lambda>command cwd. None) \<rparr>) baseOptions)
             = Some (Inr ()) \<longrightarrow>
            (\<exists>r. CodeGenerator_generate env baseOptions = Some (Inr (), r)
               \<and> last (logs r) = ''Warning: Code formatting failed: '' @ message
               \<and> (\<exists>ms. metrics r
                     = ms @ [(''code-emission'', None), (''total-generation'', None)])))"
proof
  show same: "map_option fst (CodeGenerator_generate env baseOptions)
           = map_option fst
               (CodeGenerator_generate (env\<lparr> execa := (\<lambda>command cwd. None) \<rparr>) baseOptions)"
    by (simp add: CodeGenerator_generate_execa)
  show "map_option fst
             (CodeGenerator_generate (env\<lparr> execa := (\<lambda>command cwd. None) \<rparr>) baseOptions)
             = Some (Inr ()) \<longrightarrow>
            (\<exists>r. CodeGenerator_generate env baseOptions = Some (Inr (), r)
               \<and> last (logs r) = ''Warning: Code formatting failed: '' @ message
               \<and> (\<exists>ms. metrics r
                     = ms @ [(''code-emission'', None), (''total-generation'', None)]))"
  proof
    assume "map_option fst
             (CodeGenerator_generate (env\<lparr> execa := (\<lambda>command cwd. None) \<rparr>) baseOptions)
             = Some (Inr ())"
    with same have "map_option fst (CodeGenerator_generate env baseOptions) = Some (Inr ())"
      by simp
    from CodeGenerator_generate_success[OF this] obtain r1 where
      g: "CodeGenerator_generate env baseOptions
            = Some (Inr (),
                emitMetric ''total-generation'' None
                  (emitMetric ''code-emission'' None
                    (formatGeneratedCode' env
                       (resolveFormatGeneratedCodeOption (formatGeneratedCode baseOptions))
                       (outputDirPath baseOptions) r1)))"
      by blast
    let ?r = "emitMetric ''total-generation'' None
                  (emitMetric ''code-emission'' None
                    (log' (''Warning: Code formatting failed: '' @ message)
                       (log' (''Formatting generated code with '' @ formatterText f) r1)))"
    have "CodeGenerator_generate env baseOptions = Some (Inr (), ?r)"
      using g assms by (simp add: formatGeneratedCode_fails)
    moreover have "last (logs ?r) = ''Warning: Code formatting failed: '' @ message"
      by (simp add: emitMetric_def log'_def)
    moreover have "metrics ?r
        = metrics r1 @ [(''code-emission'', None), (''total-generation'', None)]"
      by (simp add: emitMetric_def log'_def)
    ultimately show "\<exists>r. CodeGenerator_generate env baseOptions = Some (Inr (), r)
               \<and> last (logs r) = ''Warning: Code formatting failed: '' @ message
               \<and> (\<exists>ms. metrics r
                     = ms @ [(''code-emission'', None), (''total-generation'', None)])"
      by blast
  qed
qed

text \<open>A run in source mode in which \<open>prettier\<close> fails.\<close>

theorem formatter_failure_not_fatal_witness:
  \<open>resolveFormatGeneratedCodeOption (Some (FormatWith Prettier)) = Some Prettier
   \<and> CodeGenerator_generate
         (exampleRun\<lparr> execa := (\<lambda>command cwd. Some ''Command failed: npx prettier'') \<rparr>)
         \<lparr> outputDirPath = ''/out'', emitTranspiledCode = Some False,
           formatGeneratedCode = Some (FormatWith Prettier) \<rparr>
       = Some (Inr (),
           \<lparr> logs = [''Transforming dmmfDocument...'', ''Generate auxiliary files'',
                      ''Emitting final code'', ''Saving generated code'',
                      ''Formatting generated code with prettier'',
                      ''Warning: Code formatting failed: Command failed: npx prettier''],
             metrics = [(''dmmf-document-creation'', None), (''enums-generation'', Some 1),
                        (''inputs-generation'', Some 2), (''auxiliary-files'', None),
                        (''save-files'', None), (''code-emission'', None),
                        (''total-generation'', None)] \<rparr>)\<close>
proof -
  let ?env = "exampleRun\<lparr> execa := (\<lambda>command cwd. Some ''Command failed: npx prettier'') \<rparr>"
  let ?opts = "\<lparr> outputDirPath = ''/out'', emitTranspiledCode = Some False,
                 formatGeneratedCode = Some (FormatWith Prettier) \<rparr>"
  have a: "resolveFormatGeneratedCodeOption (formatGeneratedCode ?opts) = Some Prettier"
    by (simp add: resolveFormatGeneratedCodeOption_def)
  have b: "execa ?env (formatCommand ?env Prettier (outputDirPath ?opts)) (outputDirPath ?opts)
             = Some ''Command failed: npx prettier''"
    by simp
  have c: "CodeGenerator_generate ?env ?opts
       = Some (Inr (),
           \<lparr> logs = [''Transforming dmmfDocument...'', ''Generate auxiliary files'',
                      ''Emitting final code'', ''Saving generated code'',
                      ''Formatting generated code with prettier'',
                      ''Warning: Code formatting failed: Command failed: npx prettier''],
             metrics = [(''dmmf-document-creation'', None), (''enums-generation'', Some 1),
                        (''inputs-generation'', Some 2), (''auxiliary-files'', None),
                        (''save-files'', None), (''code-emission'', None),
                        (''total-generation'', None)] \<rparr>)"
    by (simp add: CodeGenerator_generate_def exampleRun_def emitTranspiledCode'_def
        emitFinalCode_def resolveFormatGeneratedCodeOption_def formatGeneratedCode'_def
        tryFormat_def blockCallback_def log'_def emitMetric_def formatterText_def Let_def)
  show ?thesis
    using formatter_failure_not_fatal[OF a b] a c by simp
qed

end
